theory Spec2Isabelle
  imports Main
begin

section \<open>Errors\<close>

text \<open>
  Go's \<^verbatim>\<open>error\<close> values. A nil error is \<open>None\<close> of \<open>error option\<close>.
  \<open>Wrap m e\<close> stands for \<^verbatim>\<open>fmt.Errorf("m: %w", e)\<close> and for
  \<^verbatim>\<open>errors.Wrap(e, "m")\<close>; \<open>ErrExternal\<close> is an error produced by a collaborator
  outside the modelled files (driver, database, network). \<open>FieldError f r\<close> is
  \<^verbatim>\<open>validation.NewFieldError(f, r)\<close>, \<open>ErrorsNew m\<close> is \<^verbatim>\<open>errors.New(m)\<close>. The two
  formatted errors of the self-test keep their arguments:
  \<^verbatim>\<open>"invalid offset: got %d; want %d"\<close> and
  \<^verbatim>\<open>"mismatch: backend version = '%s'; bundled UI version = '%s'"\<close>.
\<close>

datatype error =
    ErrNoRows
  | ErrExternal string
  | ConfigFileNotFoundError
  | FieldError string string
  | ErrorsNew string
  | ErrInvalidOffset int int
  | ErrVersionMismatch string string
  | Wrap string error

text \<open>\<^verbatim>\<open>errors.Is\<close>: walks the chain of wrapped errors.\<close>

fun errors_Is :: "error \<Rightarrow> error \<Rightarrow> bool" where
  "errors_Is (Wrap m e) target = (Wrap m e = target \<or> errors_Is e target)"
| "errors_Is e target = (e = target)"

section \<open>engine/metricsmanager/update.go\<close>

subsection \<open>Data\<close>

text \<open>
  \<^verbatim>\<open>time.Time\<close> values of the metrics cursor are instants on the server's time line,
  counted in whole seconds since the Unix epoch. The zero \<^verbatim>\<open>time.Time\<close> is
  January 1 of year 1.
\<close>

type_synonym time = int

definition zero_time :: time where
  "zero_time = - 62135596800"

text \<open>\<^verbatim>\<open>type State struct { V2 struct { ... } }\<close>, the fields of \<open>V2\<close>.\<close>

record State =
  LastLogTime :: time
  LastLogID :: int
  LastMetricsDate :: time

text \<open>\<^verbatim>\<open>sql.NullTime\<close>.\<close>

record NullTime =
  Time :: time
  Valid :: bool

definition zero_NullTime :: NullTime where
  "zero_NullTime = \<lparr>Time = zero_time, Valid = False\<rparr>"

text \<open>
  The write statements a transaction executes. The database is kept as the engine
  state blob together with the write statements of every committed transaction, in
  order; what a statement does to its table is the statement's own business.
\<close>

datatype stmt =
    InsertMetrics "int list"
  | InsertDailyMetrics NullTime

record database =
  state_blob :: State
  committed :: "stmt list"

text \<open>Every call that leaves the function, in the order it is made.\<close>

datatype event =
    EvDebugf string
  | EvBeginTxWithState
  | EvLoad
  | EvQueryBoundNow
  | EvQueryScanLogs time int time
  | EvExecInsertMetrics "int list"
  | EvQueryNextDailyMetricsDate time time
  | EvExecInsertDailyMetrics NullTime
  | EvSave State
  | EvCommit
  | EvCommitFailed
  | EvRollback

record world =
  db :: database
  trace :: "event list"

text \<open>A row of the \<open>scanLogs\<close> result: \<open>(alert_id, timestamp, id)\<close>.\<close>

type_synonym row = "int \<times> time \<times> int"

text \<open>
  What the collaborators answer during one invocation. The SQL text of the prepared
  statements and the processing lock are not part of the modelled file, so the
  outcome of each call is a parameter:
  \<^item> \<open>BeginTxWithState_res\<close>, \<open>Load_res\<close>, \<open>Save_res\<close>, \<open>Commit_res\<close>: the error of the
    lock's and the transaction's calls, or \<open>None\<close>;
  \<^item> \<open>stmt_boundNow\<close>: the row of the \<open>boundNow\<close> statement;
  \<^item> \<open>stmt_scanLogs\<close>: for the three arguments of the statement, the rows the iteration
    yields, each the outcome of one \<^verbatim>\<open>rows.Scan\<close>;
  \<^item> \<open>stmt_insertMetrics\<close>, \<open>stmt_insertDailyMetrics\<close>: the error of the \<^verbatim>\<open>ExecContext\<close>;
  \<^item> \<open>stmt_nextDailyMetricsDate\<close>: the outcome of scanning the single row of the statement.
\<close>

record env =
  BeginTxWithState_res :: "error option"
  Load_res :: "error option"
  stmt_boundNow :: "error + time"
  stmt_scanLogs :: "time \<Rightarrow> int \<Rightarrow> time \<Rightarrow> error + (error + row) list"
  stmt_insertMetrics :: "int list \<Rightarrow> error option"
  stmt_nextDailyMetricsDate :: "time \<Rightarrow> time \<Rightarrow> error + NullTime"
  stmt_insertDailyMetrics :: "NullTime \<Rightarrow> error option"
  Save_res :: "State \<Rightarrow> error option"
  Commit_res :: "error option"

subsection \<open>The transaction\<close>

definition emit :: "event \<Rightarrow> world \<Rightarrow> world" where
  "emit ev w = w\<lparr>trace := trace w @ [ev]\<rparr>"

text \<open>
  Modelled from the spec: the processing lock and \<^verbatim>\<open>sql.Tx\<close> are not under src/.
  "The transaction's commit is the only moment the new state becomes visible": a
  transaction works on its own copy of the database; \<open>Commit\<close> installs the copy,
  the deferred \<open>Rollback\<close> of a transaction that was not committed drops it, and a
  failed commit leaves the database as it was. After a \<open>Commit\<close> that returned, the
  deferred \<open>Rollback\<close> finds the transaction done and does nothing.
\<close>

definition Rollback :: "world \<Rightarrow> world" where
  "Rollback w = emit EvRollback w"

definition Commit :: "env \<Rightarrow> database \<Rightarrow> world \<Rightarrow> error option \<times> world" where
  "Commit e tx w =
     (case Commit_res e of
        Some err \<Rightarrow> (Some (Wrap ''commit'' err), emit EvCommitFailed w)
      | None \<Rightarrow> (None, emit EvCommit (w\<lparr>db := tx\<rparr>)))"

text \<open>\<open>Save\<close> writes the blob inside the transaction.\<close>

definition Save :: "State \<Rightarrow> database \<Rightarrow> database" where
  "Save s tx = tx\<lparr>state_blob := s\<rparr>"

definition exec :: "stmt \<Rightarrow> database \<Rightarrow> database" where
  "exec st tx = tx\<lparr>committed := committed tx @ [st]\<rparr>"

subsection \<open>UpdateAlertMetrics\<close>

text \<open>
  The loop \<^verbatim>\<open>for rows.Next() { rows.Scan(&alertID, &lastLogTime, &lastLogID); ... }\<close>:
  every scanned row overwrites \<open>lastLogTime\<close> and \<open>lastLogID\<close> and appends its alert ID.
\<close>

fun scan_rows :: "(error + row) list \<Rightarrow> int list \<Rightarrow> time \<Rightarrow> int \<Rightarrow> error + (int list \<times> time \<times> int)" where
  "scan_rows [] alertIDs lastLogTime lastLogID = Inr (alertIDs, lastLogTime, lastLogID)"
| "scan_rows (Inl err # rs) alertIDs lastLogTime lastLogID = Inl (Wrap ''scan alert id'' err)"
| "scan_rows (Inr (alertID, t, i) # rs) alertIDs lastLogTime lastLogID =
     scan_rows rs (alertIDs @ [alertID]) t i"

definition UpdateAlertMetrics :: "env \<Rightarrow> world \<Rightarrow> error option \<times> world" where
  "UpdateAlertMetrics e w0 =
    (let w = emit (EvDebugf ''Running alert_metrics operations.'') w0;
         w = emit EvBeginTxWithState w in
     case BeginTxWithState_res e of
       Some err \<Rightarrow> (Some (Wrap ''begin tx'' err), w)
     | None \<Rightarrow>
    (let tx = db w;
         w = emit EvLoad w in
     case Load_res e of
       Some err \<Rightarrow> (Some (Wrap ''load state'' err), Rollback w)
     | None \<Rightarrow>
    (let state = state_blob tx;
         w = emit EvQueryBoundNow w in
     case stmt_boundNow e of
       Inl err \<Rightarrow> (Some (Wrap ''select bound now'' err), Rollback w)
     | Inr boundNow \<Rightarrow>
    (let w = emit (EvQueryScanLogs (LastLogTime state) (LastLogID state) boundNow) w in
     case stmt_scanLogs e (LastLogTime state) (LastLogID state) boundNow of
       Inl err \<Rightarrow> (Some (Wrap ''scan logs'' err), Rollback w)
     | Inr rows \<Rightarrow>
    (case scan_rows rows [] zero_time 0 of
       Inl err \<Rightarrow> (Some err, Rollback w)
     | Inr (alertIDs, lastLogTime, lastLogID) \<Rightarrow>
    (let (ins, w, tx, state) =
       (if length alertIDs > 0 then
          (stmt_insertMetrics e alertIDs,
           emit (EvExecInsertMetrics alertIDs) w,
           exec (InsertMetrics alertIDs) tx,
           state\<lparr>LastLogTime := lastLogTime, LastLogID := lastLogID\<rparr>)
        else
          (None, w, tx, state\<lparr>LastLogTime := boundNow, LastLogID := 0\<rparr>)) in
     case ins of
       Some err \<Rightarrow> (Some (Wrap ''insert metrics'' err), Rollback w)
     | None \<Rightarrow>
    (let w = emit (EvSave state) w in
     case Save_res e state of
       Some err \<Rightarrow> (Some (Wrap ''save state'' err), Rollback w)
     | None \<Rightarrow>
    (let tx = Save state tx in
     case Commit e tx w of
       (Some err, w) \<Rightarrow> (Some err, w)
     | (None, w) \<Rightarrow> (None, w)))))))))"

subsection \<open>UpdateDailyAlertMetrics\<close>

definition UpdateDailyAlertMetrics :: "env \<Rightarrow> world \<Rightarrow> error option \<times> world" where
  "UpdateDailyAlertMetrics e w0 =
    (let w = emit (EvDebugf ''Running daily_alert_metrics operations.'') w0;
         w = emit EvBeginTxWithState w in
     case BeginTxWithState_res e of
       Some err \<Rightarrow> (Some (Wrap ''begin tx'' err), w)
     | None \<Rightarrow>
    (let tx = db w;
         w = emit EvLoad w in
     case Load_res e of
       Some err \<Rightarrow> (Some (Wrap ''load state'' err), Rollback w)
     | None \<Rightarrow>
    (let state = state_blob tx;
         w = emit (EvQueryNextDailyMetricsDate (LastMetricsDate state) (LastLogTime state)) w;
         (err, nextDate) =
           (case stmt_nextDailyMetricsDate e (LastMetricsDate state) (LastLogTime state) of
              Inl err \<Rightarrow> (Some err, zero_NullTime)
            | Inr nt \<Rightarrow> (None, nt));
         err = (case err of
                  Some x \<Rightarrow> if errors_Is x ErrNoRows then None else Some x
                | None \<Rightarrow> None) in
     case err of
       Some x \<Rightarrow> (Some (Wrap ''select next daily metrics date'' x), Rollback w)
     | None \<Rightarrow>
     if Valid nextDate then
       (let w = emit (EvExecInsertDailyMetrics nextDate) w in
        case stmt_insertDailyMetrics e nextDate of
          Some x \<Rightarrow> (Some (Wrap ''insert daily metrics'' x), Rollback w)
        | None \<Rightarrow>
       (let tx = exec (InsertDailyMetrics nextDate) tx;
            state = state\<lparr>LastMetricsDate := Time nextDate\<rparr>;
            w = emit (EvSave state) w in
        case Save_res e state of
          Some x \<Rightarrow> (Some (Wrap ''save state'' x), Rollback w)
        | None \<Rightarrow> Commit e (Save state tx) w))
     else Commit e tx w)))"

subsection \<open>UpdateAll\<close>

text \<open>
  The permission package is not part of the modelled files. A context carries its
  permission scope; \<open>LimitCheckAny\<close> is the answer of
  \<^verbatim>\<open>permission.LimitCheckAny(ctx, checks...)\<close> on it. \<open>System\<close> is the one checker
  the file names.
\<close>

datatype checker = System

record ctx =
  LimitCheckAny :: "checker list \<Rightarrow> error option"

definition UpdateAll :: "ctx \<Rightarrow> env \<Rightarrow> env \<Rightarrow> world \<Rightarrow> error option \<times> world" where
  "UpdateAll c e1 e2 w =
    (case LimitCheckAny c [System] of
       Some err \<Rightarrow> (Some err, w)
     | None \<Rightarrow>
    (case UpdateAlertMetrics e1 w of
       (Some err, w) \<Rightarrow> (Some err, w)
     | (None, w) \<Rightarrow>
    (case UpdateDailyAlertMetrics e2 w of
       (Some err, w) \<Rightarrow> (Some err, w)
     | (None, w) \<Rightarrow> (None, w))))"


section \<open>Package app: the commands (src/unnamed/part_000)\<close>

subsection \<open>Configuration\<close>

text \<open>\<^verbatim>\<open>isCfgNotFound\<close>: \<^verbatim>\<open>errors.As\<close> looks for a \<open>ConfigFileNotFoundError\<close> in the chain.\<close>

fun isCfgNotFound :: "error \<Rightarrow> bool" where
  "isCfgNotFound ConfigFileNotFoundError = True"
| "isCfgNotFound (Wrap m e) = isCfgNotFound e"
| "isCfgNotFound e = False"

text \<open>\<^verbatim>\<open>var ErrDBRequired = validation.NewFieldError("db-url", "is required")\<close>.\<close>

definition ErrDBRequired :: error where
  "ErrDBRequired = FieldError ''db-url'' ''is required''"

text \<open>
  The process-wide viper configuration, read through its getters. A \<^verbatim>\<open>float64\<close> is
  only copied, so it is kept as its bit pattern; a \<^verbatim>\<open>time.Duration\<close> is a count of
  nanoseconds.
\<close>

datatype float64 = Float64_bits nat

record viper =
  GetString :: "string \<Rightarrow> string"
  GetBool :: "string \<Rightarrow> bool"
  GetInt :: "string \<Rightarrow> int"
  GetInt64 :: "string \<Rightarrow> int"
  GetFloat64 :: "string \<Rightarrow> float64"
  GetDuration :: "string \<Rightarrow> int"

text \<open>
  The fields of \<open>Config\<close> that \<open>getConfig\<close> fills. The logger and the TLS configuration
  are opaque here: a logger by its name, a TLS configuration by its PEM data.
\<close>

record Config =
  Logger :: string
  JSON :: bool
  LogRequests :: bool
  LogEngine :: bool
  Verbose :: bool
  APIOnly :: bool
  DBMaxOpen :: int
  DBMaxIdle :: int
  MaxReqBodyBytes :: int
  MaxReqHeaderBytes :: int
  DisableHTTPSRedirect :: bool
  ListenAddr :: string
  TLSListenAddr :: string
  SysAPIListenAddr :: string
  SysAPICertFile :: string
  SysAPIKeyFile :: string
  SysAPICAFile :: string
  HTTPPrefix :: string
  SlackBaseURL :: string
  TwilioBaseURL :: string
  DBURL :: string
  DBURLNext :: string
  JaegerEndpoint :: string
  JaegerAgentEndpoint :: string
  StackdriverProjectID :: string
  TracingClusterName :: string
  TracingPodNamespace :: string
  TracingPodName :: string
  TracingContainerName :: string
  TracingNodeName :: string
  TraceProbability :: float64
  KubernetesCooldown :: int
  StatusAddr :: string
  EncryptionKeys :: "string list"
  RegionName :: string
  StubNotifiers :: bool
  UIDir :: string
  TLSConfig :: "string option"

text \<open>\<^verbatim>\<open>config.Config\<close> of the configuration store, the fields the self-test reads.\<close>

record config_Config =
  OIDC_Enable :: bool
  OIDC_IssuerURL :: string
  GitHub_Enable :: bool
  GitHub_EnterpriseURL :: string

definition zero_config_Config :: config_Config where
  "zero_config_Config =
     \<lparr>OIDC_Enable = False, OIDC_IssuerURL = [], GitHub_Enable = False, GitHub_EnterpriseURL = []\<rparr>"

subsection \<open>Time zones\<close>

text \<open>
  Go's \<^verbatim>\<open>time\<close> package, as far as \<open>dstCheck\<close> uses it. A \<^verbatim>\<open>*time.Location\<close> is its
  lookup: for a Unix time in seconds, the offset in force and the interval
  \<open>[start, end)\<close> in which it is in force. A \<^verbatim>\<open>time.Time\<close> is an instant in nanoseconds
  since the Unix epoch with its location.
\<close>

type_synonym Location = "int \<Rightarrow> int \<times> int \<times> int"

record go_Time =
  unix_ns :: int
  location :: Location

text \<open>Days from 1970-01-01 to a date of the proleptic Gregorian calendar.\<close>

definition days_from_civil :: "int \<Rightarrow> int \<Rightarrow> int \<Rightarrow> int" where
  "days_from_civil year month day =
     (let y = (if month \<le> 2 then year - 1 else year);
          era = y div 400;
          yoe = y - era * 400;
          mp = (if month > 2 then month - 3 else month + 9);
          doy = (153 * mp + 2) div 5 + day - 1;
          doe = yoe * 365 + yoe div 4 - yoe div 100 + doy
      in era * 146097 + doe - 719468)"

text \<open>
  \<^verbatim>\<open>time.Date\<close> for arguments in their normal ranges: the Unix time of the wall clock
  read as UTC is looked up in the location; if the offset found is not zero and the
  corrected time lies outside the interval of that offset, the corrected time is
  looked up again.
\<close>

definition Date :: "int \<Rightarrow> int \<Rightarrow> int \<Rightarrow> int \<Rightarrow> int \<Rightarrow> int \<Rightarrow> int \<Rightarrow> Location \<Rightarrow> go_Time" where
  "Date year month day hour minute sec nsec loc =
     (let unix = days_from_civil year month day * 86400 + hour * 3600 + minute * 60 + sec;
          (offset, start, fin) = loc unix;
          unix =
            (if offset \<noteq> 0 then
               (let utc = unix - offset;
                    offset = (if utc < start \<or> utc \<ge> fin then fst (loc utc) else offset)
                in unix - offset)
             else unix)
      in \<lparr>unix_ns = unix * 1000000000 + nsec, location = loc\<rparr>)"

text \<open>The offset that \<^verbatim>\<open>t.Zone()\<close> returns, \<^verbatim>\<open>t.Add(d)\<close> and \<^verbatim>\<open>time.Hour\<close>.\<close>

definition Zone :: "go_Time \<Rightarrow> int" where
  "Zone t = fst (location t (unix_ns t div 1000000000))"

definition Add :: "go_Time \<Rightarrow> int \<Rightarrow> go_Time" where
  "Add t d = t\<lparr>unix_ns := unix_ns t + d\<rparr>"

definition Hour :: int where
  "Hour = 3600 * 1000000000"

subsection \<open>Drivers, connectors and URLs\<close>

text \<open>
  Modelled from the spec: package sqldrv (\<open>NewRetryDriver\<close> and its retry loop) is not
  under src/. "Wraps a backend driver. For connection establishment and for idempotent
  statements, up to N attempts (default 10) [...]. Classifies errors: transient
  [...] retry; logical [...] propagate." An operation is given by the outcome of its
  attempts, numbered from 0; \<open>retry_loop\<close> returns the outcome it settles on and the
  number of attempts made. The backoff between attempts is not modelled.
\<close>

datatype driver = stdlib_Driver | RetryDriver driver nat

definition NewRetryDriver :: "driver \<Rightarrow> nat \<Rightarrow> driver" where
  "NewRetryDriver d n = RetryDriver d n"

function retry_loop :: "(error \<Rightarrow> bool) \<Rightarrow> (nat \<Rightarrow> error + 'a) \<Rightarrow> nat \<Rightarrow> nat \<Rightarrow> (error + 'a) \<times> nat" where
  "retry_loop transient op i n =
     (case op i of
        Inr v \<Rightarrow> (Inr v, Suc i)
      | Inl e \<Rightarrow> if transient e \<and> 1 < n then retry_loop transient op (Suc i) (n - 1)
                 else (Inl e, Suc i))"
  by pat_completeness auto
termination
  by (relation "measure (\<lambda>(transient, op, i, n). n)") auto

declare retry_loop.simps [simp del]

fun run_with :: "driver \<Rightarrow> (error \<Rightarrow> bool) \<Rightarrow> (nat \<Rightarrow> error + 'a) \<Rightarrow> (error + 'a) \<times> nat" where
  "run_with stdlib_Driver transient op = (op 0, 1)"
| "run_with (RetryDriver d n) transient op = retry_loop transient op 0 n"

text \<open>
  A connector remembers its driver and its URL; a \<^verbatim>\<open>*sql.DB\<close> is opened on one
  connector or comes from the switchover handler of two.
\<close>

datatype connector = Connector driver string

datatype sql_DB = OpenDB connector | HandlerDB connector connector

text \<open>
  A parsed URL: its query values, and everything else. \<^verbatim>\<open>q.Set(k, v)\<close> replaces the
  values of a key by one value.
\<close>

type_synonym Values = "string \<Rightarrow> string list"

record URL =
  url_rest :: string
  RawQuery :: Values

definition Set_value :: "Values \<Rightarrow> string \<Rightarrow> string \<Rightarrow> Values" where
  "Set_value q k v = q(k := [v])"

subsection \<open>The collaborators of the commands\<close>

text \<open>What the commands print, call and start, in order.\<close>

datatype cmd_event =
    CmdEnableJSON
  | CmdEnableDebug
  | CmdErrorsOnly
  | CmdEnableStacks
  | CmdFlush string
  | CmdLogApplied int
  | CmdNewHandler connector connector string string
  | CmdNewApp Config sql_DB
  | CmdSetApp
  | CmdGoHandleShutdown
  | CmdNotifyTrigger
  | CmdAppRun
  | CmdPrintOK string
  | CmdPrintFAIL string error

text \<open>
  The outcome of every call into code outside the modelled file: viper, the logger of
  the context, the Prometheus server, the TLS files, tracing (the exporters by name,
  with whether they can flush), \<^verbatim>\<open>net/url\<close>, the version, the migrations, the driver's
  \<open>OpenConnector\<close>, the switchover handler, the app; and for the self-test the
  \<open>offline\<close> flag, the version of the bundled UI, the configuration store, \<^verbatim>\<open>http.Get\<close>
  and \<^verbatim>\<open>util.LoadLocation\<close>.
\<close>

record cmd_env =
  vp :: viper
  ctx_Logger :: string
  ReadInConfig_res :: "error option"
  initPromServer_res :: "error option"
  getTLSConfig_res :: "string option \<times> error option"
  configTracing_res :: "Config \<Rightarrow> error + (string \<times> bool) list"
  url_Parse :: "string \<Rightarrow> error + URL"
  url_String :: "URL \<Rightarrow> string"
  GitVersion :: string
  VerifyAll_res :: "string \<Rightarrow> error option"
  ApplyAll_res :: "string \<Rightarrow> error + int"
  OpenConnector_res :: "string \<Rightarrow> error option"
  NewHandler_res :: "error option"
  NewApp_res :: "error option"
  Run_res :: "error option"
  offline :: bool
  AppVersion :: string
  sql_Open_res :: "string \<Rightarrow> error option"
  NewStore_res :: "error + config_Config"
  http_Get :: "string \<Rightarrow> error option"
  LoadLocation :: "string \<Rightarrow> error + Location"

subsection \<open>getConfig\<close>

definition getConfig :: "cmd_env \<Rightarrow> cmd_event list \<Rightarrow> (Config \<times> error option) \<times> cmd_event list" where
  "getConfig c tr =
    (let v = vp c;
         cfg = \<lparr>Logger = ctx_Logger c,
                JSON = GetBool v ''json'',
                LogRequests = GetBool v ''log-requests'',
                LogEngine = GetBool v ''log-engine-cycles'',
                Verbose = GetBool v ''verbose'',
                APIOnly = GetBool v ''api-only'',
                DBMaxOpen = GetInt v ''db-max-open'',
                DBMaxIdle = GetInt v ''db-max-idle'',
                MaxReqBodyBytes = GetInt64 v ''max-request-body-bytes'',
                MaxReqHeaderBytes = GetInt v ''max-request-header-bytes'',
                DisableHTTPSRedirect = GetBool v ''disable-https-redirect'',
                ListenAddr = GetString v ''listen'',
                TLSListenAddr = GetString v ''listen-tls'',
                SysAPIListenAddr = GetString v ''listen-sysapi'',
                SysAPICertFile = GetString v ''sysapi-cert-file'',
                SysAPIKeyFile = GetString v ''sysapi-key-file'',
                SysAPICAFile = GetString v ''sysapi-ca-file'',
                HTTPPrefix = GetString v ''http-prefix'',
                SlackBaseURL = GetString v ''slack-base-url'',
                TwilioBaseURL = GetString v ''twilio-base-url'',
                DBURL = GetString v ''db-url'',
                DBURLNext = GetString v ''db-url-next'',
                JaegerEndpoint = GetString v ''jaeger-endpoint'',
                JaegerAgentEndpoint = GetString v ''jaeger-agent-endpoint'',
                StackdriverProjectID = GetString v ''stackdriver-project-id'',
                TracingClusterName = GetString v ''tracing-cluster-name'',
                TracingPodNamespace = GetString v ''tracing-pod-namespace'',
                TracingPodName = GetString v ''tracing-pod-name'',
                TracingContainerName = GetString v ''tracing-container-name'',
                TracingNodeName = GetString v ''tracing-node-name'',
                TraceProbability = GetFloat64 v ''tracing-probability'',
                KubernetesCooldown = GetDuration v ''kubernetes-cooldown'',
                StatusAddr = GetString v ''status-addr'',
                EncryptionKeys = [GetString v ''data-encryption-key'',
                                  GetString v ''data-encryption-key-old''],
                RegionName = GetString v ''region-name'',
                StubNotifiers = GetBool v ''stub-notifiers'',
                UIDir = GetString v ''ui-dir'',
                TLSConfig = None\<rparr> in
     if DBURL cfg = [] then ((cfg, Some ErrDBRequired), tr)
     else
    (let cfg = cfg\<lparr>TLSConfig := fst (getTLSConfig_res c)\<rparr> in
     case snd (getTLSConfig_res c) of
       Some err \<Rightarrow> ((cfg, Some err), tr)
     | None \<Rightarrow>
    (let tr = (if GetBool v ''stack-traces'' then tr @ [CmdEnableStacks] else tr) in
     ((cfg, None), tr))))"

subsection \<open>RootCmd\<close>

definition OpenConnector :: "cmd_env \<Rightarrow> driver \<Rightarrow> string \<Rightarrow> error + connector" where
  "OpenConnector c d name =
     (case OpenConnector_res c name of
        Some err \<Rightarrow> Inl err
      | None \<Rightarrow> Inr (Connector d name))"

text \<open>\<^verbatim>\<open>wrappedDriver := sqldrv.NewRetryDriver(&stdlib.Driver{}, 10)\<close>.\<close>

definition wrappedDriver :: driver where
  "wrappedDriver = NewRetryDriver stdlib_Driver 10"

text \<open>
  The body of \<open>RunE\<close> after the deferred flush of the exporters is registered: from
  the wrapped driver to \<^verbatim>\<open>app.Run\<close>.
\<close>

definition RootCmd_serve :: "cmd_env \<Rightarrow> Config \<Rightarrow> cmd_event list \<Rightarrow> error option \<times> cmd_event list" where
  "RootCmd_serve c cfg tr =
    (case url_Parse c (DBURL cfg) of
       Inl err \<Rightarrow> (Some (Wrap ''parse old URL'' err), tr)
     | Inr u \<Rightarrow>
    (let q = RawQuery u;
         q = (if DBURLNext cfg \<noteq> []
              then Set_value q ''application_name'' (''GoAlert '' @ GitVersion c @ '' (S/O Mode)'')
              else Set_value q ''application_name'' (''GoAlert '' @ GitVersion c));
         q = Set_value q ''enable_seqscan'' ''off'';
         u = u\<lparr>RawQuery := q\<rparr>;
         cfg = cfg\<lparr>DBURL := url_String c u\<rparr> in
     case (if APIOnly cfg then
             (case VerifyAll_res c (DBURL cfg) of
                Some err \<Rightarrow> (Some (Wrap ''verify migrations'' err), tr)
              | None \<Rightarrow> (None, tr))
           else
             (case ApplyAll_res c (DBURL cfg) of
                Inl err \<Rightarrow> (Some (Wrap ''apply migrations'' err), tr)
              | Inr n \<Rightarrow> (None, if n > 0 then tr @ [CmdLogApplied n] else tr))) of
       (Some err, tr) \<Rightarrow> (Some err, tr)
     | (None, tr) \<Rightarrow>
    (case OpenConnector c wrappedDriver (DBURL cfg) of
       Inl err \<Rightarrow> (Some (Wrap ''connect to postgres'' err), tr)
     | Inr dbc \<Rightarrow>
    (case (if DBURLNext cfg \<noteq> [] then
             (case url_Parse c (DBURLNext cfg) of
                Inl err \<Rightarrow> Inl (Wrap ''parse next URL'' err)
              | Inr u \<Rightarrow>
             (let q = RawQuery u;
                  q = Set_value q ''application_name'' (''GoAlert '' @ GitVersion c @ '' (S/O Mode)'');
                  q = Set_value q ''enable_seqscan'' ''off'';
                  u = u\<lparr>RawQuery := q\<rparr>;
                  cfg = cfg\<lparr>DBURLNext := url_String c u\<rparr> in
              case OpenConnector c wrappedDriver (DBURLNext cfg) of
                Inl err \<Rightarrow> Inl (Wrap ''connect to postres (next)'' err)
              | Inr dbcNext \<Rightarrow>
             (case NewHandler_res c of
                Some err \<Rightarrow> Inl (Wrap ''init changeover handler'' err)
              | None \<Rightarrow>
                  Inr (cfg, HandlerDB dbc dbcNext, True,
                       [CmdNewHandler dbc dbcNext (DBURL cfg) (DBURLNext cfg)]))))
           else Inr (cfg, OpenDB dbc, False, [])) of
       Inl err \<Rightarrow> (Some err, tr)
     | Inr (cfg, sqldb, h, evs) \<Rightarrow>
    (let tr = tr @ evs @ [CmdNewApp cfg sqldb] in
     case NewApp_res c of
       Some err \<Rightarrow> (Some (Wrap ''init app'' err), tr)
     | None \<Rightarrow>
    (let tr = (if h then tr @ [CmdSetApp] else tr);
         tr = tr @ [CmdGoHandleShutdown, CmdNotifyTrigger, CmdAppRun] in
     case Run_res c of
       Some err \<Rightarrow> (Some (Wrap ''run app'' err), tr)
     | None \<Rightarrow> (None, tr)))))))"

text \<open>The first lines of \<open>RunE\<close>: the logger is set up from the flags.\<close>

definition logger_setup :: "cmd_env \<Rightarrow> cmd_event list" where
  "logger_setup c =
    (let tr = [];
         tr = (if GetBool (vp c) ''json'' then tr @ [CmdEnableJSON] else tr);
         tr = (if GetBool (vp c) ''verbose'' then tr @ [CmdEnableDebug] else tr);
         tr = (if GetBool (vp c) ''log-errors-only'' then tr @ [CmdErrorsOnly] else tr)
     in tr)"

text \<open>\<open>RunE\<close> of \<open>RootCmd\<close>. The exporters that can flush are flushed when it returns.\<close>

definition RootCmd_RunE :: "cmd_env \<Rightarrow> error option \<times> cmd_event list" where
  "RootCmd_RunE c =
    (let tr = logger_setup c in
     case (case ReadInConfig_res c of
             Some err \<Rightarrow> if \<not> isCfgNotFound err then Some err else None
           | None \<Rightarrow> None) of
       Some err \<Rightarrow> (Some (Wrap ''read config'' err), tr)
     | None \<Rightarrow>
    (case initPromServer_res c of
       Some err \<Rightarrow> (Some err, tr)
     | None \<Rightarrow>
    (case getConfig c tr of
       ((cfg, Some err), tr) \<Rightarrow> (Some err, tr)
     | ((cfg, None), tr) \<Rightarrow>
    (case configTracing_res c cfg of
       Inl err \<Rightarrow> (Some (Wrap ''config tracing'' err), tr)
     | Inr exporters \<Rightarrow>
    (case RootCmd_serve c cfg tr of
       (err, tr) \<Rightarrow> (err, tr @ map CmdFlush (map fst (filter snd exporters))))))))"

subsection \<open>The self-test\<close>

text \<open>The closure \<open>result\<close>: it prints the outcome of a check and records a failure.\<close>

definition result :: "string \<Rightarrow> error option \<Rightarrow> bool \<times> cmd_event list \<Rightarrow> bool \<times> cmd_event list" where
  "result name err st =
     (case err of
        Some e \<Rightarrow> (True, snd st @ [CmdPrintFAIL name e])
      | None \<Rightarrow> (fst st, snd st @ [CmdPrintOK name]))"

definition loadConfigDB :: "cmd_env \<Rightarrow> Config \<Rightarrow> error option \<times> config_Config" where
  "loadConfigDB c cf =
     (case sql_Open_res c (DBURL cf) of
        Some err \<Rightarrow> (Some (Wrap ''open db'' err), zero_config_Config)
      | None \<Rightarrow>
     (case NewStore_res c of
        Inl err \<Rightarrow> (Some (Wrap ''read config'' err), zero_config_Config)
      | Inr cfg \<Rightarrow> (None, cfg)))"

definition dstCheck :: "(string \<Rightarrow> error + Location) \<Rightarrow> error option" where
  "dstCheck load =
    (let standardOffset = - 21600;
         daylightOffset = - 18000 in
     case load ''America/Chicago'' of
       Inl err \<Rightarrow> Some (Wrap ''load location'' err)
     | Inr loc \<Rightarrow>
    (let t = Date 2020 3 8 0 0 0 0 loc;
         offset = Zone t in
     if offset \<noteq> standardOffset then Some (ErrInvalidOffset offset standardOffset)
     else
    (let t = Add t (3 * Hour);
         offset = Zone t in
     if offset \<noteq> daylightOffset then Some (ErrInvalidOffset offset daylightOffset)
     else
    (let t = Date 2020 11 1 0 0 0 0 loc;
         offset = Zone t in
     if offset \<noteq> daylightOffset then Some (ErrInvalidOffset offset daylightOffset)
     else
    (let t = Add t (3 * Hour);
         offset = Zone t in
     if offset \<noteq> standardOffset then Some (ErrInvalidOffset offset standardOffset)
     else None)))))"

text \<open>
  \<open>RunE\<close> of \<open>testCmd\<close>, the command \<open>self-test\<close>. Two of its steps are named here:
  the version check, done only if the UI is bundled, and the list of services to
  reach.
\<close>

definition versionCheck :: "cmd_env \<Rightarrow> bool \<times> cmd_event list \<Rightarrow> bool \<times> cmd_event list" where
  "versionCheck c st =
     (if AppVersion c \<noteq> [] then
        result ''Version''
          (if GitVersion c \<noteq> AppVersion c
           then Some (ErrVersionMismatch (GitVersion c) (AppVersion c)) else None) st
      else st)"

definition serviceList_of :: "config_Config \<Rightarrow> bool \<Rightarrow> (string \<times> string) list" where
  "serviceList_of cfg offlineOnly =
    (let serviceList = [(''Twilio'', ''https://api.twilio.com/2010-04-01''),
                        (''Mailgun'', ''https://api.mailgun.net/v3''),
                        (''Slack'', ''https://slack.com/api/api.test'')];
         serviceList = (if OIDC_Enable cfg
                        then serviceList @ [(''OIDC'', OIDC_IssuerURL cfg @ ''/.well-known.openid-configuration'')]
                        else serviceList);
         serviceList = (if GitHub_Enable cfg
                        then serviceList @
                          [(''GitHub'', if GitHub_EnterpriseURL cfg \<noteq> [] then GitHub_EnterpriseURL cfg
                                        else ''https://github.com'')]
                        else serviceList) in
     if offlineOnly then [] else serviceList)"

definition testCmd_RunE :: "cmd_env \<Rightarrow> error option \<times> cmd_event list" where
  "testCmd_RunE c =
    (let offlineOnly = offline c;
         st = versionCheck c (False, []) in
     case getConfig c (snd st) of ((cf, err), tr) \<Rightarrow>
    (let st = (fst st, tr);
         err = (case err of
                  Some x \<Rightarrow> if errors_Is x ErrDBRequired then None else Some x
                | None \<Rightarrow> None) in
     case err of
       Some x \<Rightarrow> (Some x, snd st)
     | None \<Rightarrow>
    (let (st, cfg) =
           (if DBURL cf \<noteq> [] \<and> \<not> offlineOnly then
              (case loadConfigDB c cf of (e, cfg) \<Rightarrow> (result ''DB'' e st, cfg))
            else (st, zero_config_Config));
         st = fold (\<lambda>s st. result (fst s) (http_Get c (snd s)) st) (serviceList_of cfg offlineOnly) st;
         st = result ''DST Rules'' (dstCheck (LoadLocation c)) st in
     if fst st then (Some (ErrorsNew ''one or more checks failed.''), snd st)
     else (None, snd st))))"

section \<open>Vocabulary of the properties\<close>

text \<open>
  The persisted engine state, its log cursor, the events one invocation adds to the
  trace, the columns of a scanned row, and the order of cursors: by time, ties broken
  by the log ID.
\<close>

definition persisted :: "world \<Rightarrow> State" where
  "persisted w = state_blob (db w)"

definition cursor :: "State \<Rightarrow> time \<times> int" where
  "cursor s = (LastLogTime s, LastLogID s)"

definition new_events :: "world \<Rightarrow> world \<Rightarrow> event list" where
  "new_events w w' = drop (length (trace w)) (trace w')"

definition row_alert :: "row \<Rightarrow> int" where
  "row_alert r = fst r"

definition row_time :: "row \<Rightarrow> time" where
  "row_time r = fst (snd r)"

definition row_id :: "row \<Rightarrow> int" where
  "row_id r = snd (snd r)"

definition cursor_lt :: "time \<times> int \<Rightarrow> time \<times> int \<Rightarrow> bool" where
  "cursor_lt a b = (fst a < fst b \<or> (fst a = fst b \<and> snd a < snd b))"

definition cursor_le :: "time \<times> int \<Rightarrow> time \<times> int \<Rightarrow> bool" where
  "cursor_le a b = (a = b \<or> cursor_lt a b)"

text \<open>Sample collaborators, all of whose calls succeed, and a sample world.\<close>

definition env_ok :: "time \<Rightarrow> row list \<Rightarrow> NullTime \<Rightarrow> env" where
  "env_ok bound batch nd =
     \<lparr>BeginTxWithState_res = None, Load_res = None, stmt_boundNow = Inr bound,
      stmt_scanLogs = (\<lambda>t i b. Inr (map Inr batch)),
      stmt_insertMetrics = (\<lambda>ids. None),
      stmt_nextDailyMetricsDate = (\<lambda>a b. Inr nd),
      stmt_insertDailyMetrics = (\<lambda>d. None),
      Save_res = (\<lambda>s. None), Commit_res = None\<rparr>"

definition world0 :: "time \<Rightarrow> int \<Rightarrow> time \<Rightarrow> world" where
  "world0 t i d = \<lparr>db = \<lparr>state_blob = \<lparr>LastLogTime = t, LastLogID = i, LastMetricsDate = d\<rparr>,
                         committed = []\<rparr>, trace = []\<rparr>"

text \<open>A collaborator whose \<open>insertMetrics\<close> fails, one whose date query finds no row.\<close>

definition env_fail_insert :: env where
  "env_fail_insert = (env_ok 100 [(11, 50, 3)] zero_NullTime)
     \<lparr>stmt_insertMetrics := (\<lambda>ids. Some (ErrExternal ''connection reset''))\<rparr>"

definition env_norows :: env where
  "env_norows = (env_ok 0 [] zero_NullTime)
     \<lparr>stmt_nextDailyMetricsDate := (\<lambda>a b. Inl ErrNoRows)\<rparr>"

text \<open>Sample contexts: one whose permission check fails, one with the system permission.\<close>

definition ctx_denied :: ctx where
  "ctx_denied = \<lparr>LimitCheckAny = (\<lambda>cs. Some (ErrExternal ''permission denied''))\<rparr>"

definition ctx_system :: ctx where
  "ctx_system = \<lparr>LimitCheckAny = (\<lambda>cs. if System \<in> set cs then None else Some (ErrExternal ''permission denied''))\<rparr>"

text \<open>The first call of each function, which marks its invocation in the trace.\<close>

definition daily_marker :: event where
  "daily_marker = EvDebugf ''Running daily_alert_metrics operations.''"

definition alert_marker :: event where
  "alert_marker = EvDebugf ''Running alert_metrics operations.''"

text \<open>
  Modelled from the spec: the SQL text of \<open>nextDailyMetricsDate\<close> is not under src/.
  "Compute next daily date strictly greater than \<open>last_metrics_date\<close> and strictly
  before the day of \<open>last_log_time\<close>": \<open>days\<close> are the dates that have alert metrics,
  a date being the first instant of its day; the candidates are those strictly between
  \<open>lastMetricsDate\<close> and the day of \<open>lastLogTime\<close>. \<open>next_date_answer\<close> says that \<open>res\<close> is
  an answer of the statement: the earliest candidate, or, when there is none, no row
  or a NULL date. \<open>nextDailyMetricsDate_sql\<close> is one statement that answers so.
\<close>

definition day_len :: int where
  "day_len = 86400"

definition day_of :: "time \<Rightarrow> time" where
  "day_of t = t - t mod day_len"

definition candidate_dates :: "time list \<Rightarrow> time \<Rightarrow> time \<Rightarrow> time list" where
  "candidate_dates days lastMetricsDate lastLogTime =
     filter (\<lambda>d. lastMetricsDate < d \<and> d < day_of lastLogTime) days"

definition next_date_answer :: "time list \<Rightarrow> time \<Rightarrow> time \<Rightarrow> error + NullTime \<Rightarrow> bool" where
  "next_date_answer days lastMetricsDate lastLogTime res =
     (case candidate_dates days lastMetricsDate lastLogTime of
        [] \<Rightarrow> (case res of Inl x \<Rightarrow> errors_Is x ErrNoRows | Inr nt \<Rightarrow> \<not> Valid nt)
      | d # ds \<Rightarrow> res = Inr \<lparr>Time = fold min ds d, Valid = True\<rparr>)"

definition nextDailyMetricsDate_sql :: "time list \<Rightarrow> time \<Rightarrow> time \<Rightarrow> error + NullTime" where
  "nextDailyMetricsDate_sql days lastMetricsDate lastLogTime =
     (case candidate_dates days lastMetricsDate lastLogTime of
        [] \<Rightarrow> Inl ErrNoRows
      | d # ds \<Rightarrow> Inr \<lparr>Time = fold min ds d, Valid = True\<rparr>)"

definition env_daily :: "time list \<Rightarrow> env" where
  "env_daily days = (env_ok 0 [] zero_NullTime)
     \<lparr>stmt_nextDailyMetricsDate := nextDailyMetricsDate_sql days\<rparr>"

subsection \<open>Vocabulary and samples for the commands\<close>

text \<open>
  The databases the app was started on, as the trace shows them, and the drivers
  under a database.
\<close>

fun started_dbs :: "cmd_event list \<Rightarrow> sql_DB list" where
  "started_dbs [] = []"
| "started_dbs (CmdNewApp cfg sdb # es) = sdb # started_dbs es"
| "started_dbs (e # es) = started_dbs es"

definition db_drivers :: "sql_DB \<Rightarrow> driver list" where
  "db_drivers d =
     (case d of
        OpenDB (Connector a u) \<Rightarrow> [a]
      | HandlerDB (Connector a u) (Connector b v) \<Rightarrow> [a, b])"

text \<open>An operation that fails on every attempt, with an error that counts as transient.\<close>

definition failing_op :: "nat \<Rightarrow> error + unit" where
  "failing_op k = Inl (ErrExternal ''connection refused'')"

definition always_transient :: "error \<Rightarrow> bool" where
  "always_transient e = True"

text \<open>
  America/Chicago around 2020, with the changes of offset at 2020-03-08 08:00 UTC and
  2020-11-01 07:00 UTC, and a location that is UTC throughout.
\<close>

definition chicago :: Location where
  "chicago s =
     (if s < 1583654400 then (- 21600, 1572764400, 1583654400)
      else if s < 1604214000 then (- 18000, 1583654400, 1604214000)
      else (- 21600, 1604214000, 1615708800))"

definition utc :: Location where
  "utc s = (0, - 9223372036854775808, 9223372036854775807)"

text \<open>
  A sample viper that knows \<open>db-url\<close> only, and sample collaborators of the commands
  under which every call succeeds and no configuration file is found.
\<close>

definition viper0 :: "string \<Rightarrow> viper" where
  "viper0 dburl =
     \<lparr>GetString = (\<lambda>k. if k = ''db-url'' then dburl else []),
      GetBool = (\<lambda>k. False),
      GetInt = (\<lambda>k. 0),
      GetInt64 = (\<lambda>k. 0),
      GetFloat64 = (\<lambda>k. Float64_bits 0),
      GetDuration = (\<lambda>k. 0)\<rparr>"

definition cmd_env0 :: "string \<Rightarrow> Location \<Rightarrow> cmd_env" where
  "cmd_env0 dburl loc =
     \<lparr>vp = viper0 dburl,
      ctx_Logger = ''root'',
      ReadInConfig_res = Some ConfigFileNotFoundError,
      initPromServer_res = None,
      getTLSConfig_res = (None, None),
      configTracing_res = (\<lambda>cfg. Inr []),
      url_Parse = (\<lambda>s. Inr \<lparr>url_rest = s, RawQuery = (\<lambda>k. [])\<rparr>),
      url_String = url_rest,
      GitVersion = ''v0.30.0'',
      VerifyAll_res = (\<lambda>u. None),
      ApplyAll_res = (\<lambda>u. Inr 0),
      OpenConnector_res = (\<lambda>u. None),
      NewHandler_res = None,
      NewApp_res = None,
      Run_res = None,
      offline = True,
      AppVersion = [],
      sql_Open_res = (\<lambda>u. None),
      NewStore_res = Inr zero_config_Config,
      http_Get = (\<lambda>u. None),
      LoadLocation = (\<lambda>name. Inr loc)\<rparr>"

section \<open>Properties of the metrics cycle\<close>

lemmas model_defs = UpdateAlertMetrics_def UpdateDailyAlertMetrics_def Let_def Commit_def
  Rollback_def emit_def Save_def exec_def persisted_def cursor_def new_events_def
  row_alert_def row_time_def row_id_def

lemma scan_rows_Inr:
  "scan_rows rs ids t i = Inr (ids', t', i') \<Longrightarrow>
     \<exists>rows. rs = map Inr rows \<and> ids' = ids @ map fst rows \<and>
       t' = (if rows = [] then t else fst (snd (last rows))) \<and>
       i' = (if rows = [] then i else snd (snd (last rows)))"
proof (induction rs ids t i rule: scan_rows.induct)
  case (1 alertIDs lastLogTime lastLogID)
  then show ?case by simp
next
  case (2 err rs alertIDs lastLogTime lastLogID)
  then show ?case by simp
next
  case (3 alertID t i rs alertIDs lastLogTime lastLogID)
  from 3 obtain rows where r: "rs = map Inr rows" "ids' = (alertIDs @ [alertID]) @ map fst rows"
     "t' = (if rows = [] then t else fst (snd (last rows)))"
     "i' = (if rows = [] then i else snd (snd (last rows)))" by auto
  show ?case
    by (rule exI[of _ "(alertID, t, i) # rows"]) (use r in auto)
qed

lemma row_sel: "row_alert = fst" "row_time = (\<lambda>r. fst (snd r))" "row_id = (\<lambda>r. snd (snd r))"
  by (auto simp: row_alert_def row_time_def row_id_def)

lemma UpdateAlertMetrics_success:
  assumes "UpdateAlertMetrics e w = (None, w')"
  shows "\<exists>bound batch.
     BeginTxWithState_res e = None \<and> Load_res e = None \<and>
     stmt_boundNow e = Inr bound \<and>
     stmt_scanLogs e (LastLogTime (persisted w)) (LastLogID (persisted w)) bound = Inr (map Inr batch) \<and>
     Commit_res e = None \<and>
     LastMetricsDate (persisted w') = LastMetricsDate (persisted w) \<and>
     (batch \<noteq> [] \<longrightarrow>
        stmt_insertMetrics e (map row_alert batch) = None \<and>
        LastLogTime (persisted w') = row_time (last batch) \<and>
        LastLogID (persisted w') = row_id (last batch) \<and>
        committed (db w') = committed (db w) @ [InsertMetrics (map row_alert batch)] \<and>
        EvExecInsertMetrics (map row_alert batch) \<in> set (new_events w w')) \<and>
     (batch = [] \<longrightarrow>
        LastLogTime (persisted w') = bound \<and>
        LastLogID (persisted w') = 0 \<and>
        committed (db w') = committed (db w))"
  using assms unfolding row_sel
  apply (simp add: UpdateAlertMetrics_def Let_def Commit_def Rollback_def emit_def Save_def exec_def
        new_events_def persisted_def
       split: option.splits sum.splits prod.splits if_splits)
  apply (auto dest!: scan_rows_Inr split: if_splits)
  done

text \<open>
  C1. A successful \<open>UpdateAlertMetrics\<close> scanned a batch of rows, all of them read
  without error. If the batch is not empty, the committed transaction executed
  \<open>insertMetrics\<close> with exactly the alert IDs of the batch, and the persisted cursor is
  the (time, id) of the last row of the batch. If the batch is empty, nothing was
  inserted and the cursor is \<open>(boundNow, 0)\<close>. \<open>LastMetricsDate\<close> is unchanged.
\<close>

theorem C1_cursor_and_insert:
  assumes "UpdateAlertMetrics e w = (None, w')"
  shows "\<exists>bound batch.
     stmt_boundNow e = Inr bound \<and>
     stmt_scanLogs e (LastLogTime (persisted w)) (LastLogID (persisted w)) bound = Inr (map Inr batch) \<and>
     LastMetricsDate (persisted w') = LastMetricsDate (persisted w) \<and>
     (if batch \<noteq> [] then
        committed (db w') = committed (db w) @ [InsertMetrics (map row_alert batch)] \<and>
        EvExecInsertMetrics (map row_alert batch) \<in> set (new_events w w') \<and>
        cursor (persisted w') = (row_time (last batch), row_id (last batch))
      else
        committed (db w') = committed (db w) \<and>
        cursor (persisted w') = (bound, 0))"
proof -
  from UpdateAlertMetrics_success[OF assms] obtain bound batch where
    h: "stmt_boundNow e = Inr bound"
       "stmt_scanLogs e (LastLogTime (persisted w)) (LastLogID (persisted w)) bound = Inr (map Inr batch)"
       "LastMetricsDate (persisted w') = LastMetricsDate (persisted w)"
       "batch \<noteq> [] \<longrightarrow>
        LastLogTime (persisted w') = row_time (last batch) \<and>
        LastLogID (persisted w') = row_id (last batch) \<and>
        committed (db w') = committed (db w) @ [InsertMetrics (map row_alert batch)] \<and>
        EvExecInsertMetrics (map row_alert batch) \<in> set (new_events w w')"
       "batch = [] \<longrightarrow>
        LastLogTime (persisted w') = bound \<and>
        LastLogID (persisted w') = 0 \<and>
        committed (db w') = committed (db w)"
    by blast
  show ?thesis
    apply (intro exI[of _ bound] exI[of _ batch])
    using h by (simp add: cursor_def)
qed

theorem C1_cursor_and_insert_witness:
  "UpdateAlertMetrics (env_ok 100 [(11, 50, 3), (12, 60, 4)] zero_NullTime) (world0 40 9 0)
     = (None, \<lparr>db = \<lparr>state_blob = \<lparr>LastLogTime = 60, LastLogID = 4, LastMetricsDate = 0\<rparr>,
                     committed = [InsertMetrics [11, 12]]\<rparr>,
               trace = [EvDebugf ''Running alert_metrics operations.'', EvBeginTxWithState, EvLoad,
                        EvQueryBoundNow, EvQueryScanLogs 40 9 100, EvExecInsertMetrics [11, 12],
                        EvSave \<lparr>LastLogTime = 60, LastLogID = 4, LastMetricsDate = 0\<rparr>, EvCommit]\<rparr>) \<and>
   (\<exists>bound batch.
     stmt_boundNow (env_ok 100 [(11, 50, 3), (12, 60, 4)] zero_NullTime) = Inr bound \<and>
     batch = [(11, 50, 3), (12, 60, 4)] \<and>
     cursor (persisted (snd (UpdateAlertMetrics (env_ok 100 [(11, 50, 3), (12, 60, 4)] zero_NullTime) (world0 40 9 0))))
        = (row_time (last batch), row_id (last batch)))"
proof -
  have run: "UpdateAlertMetrics (env_ok 100 [(11, 50, 3), (12, 60, 4)] zero_NullTime) (world0 40 9 0)
     = (None, \<lparr>db = \<lparr>state_blob = \<lparr>LastLogTime = 60, LastLogID = 4, LastMetricsDate = 0\<rparr>,
                     committed = [InsertMetrics [11, 12]]\<rparr>,
               trace = [EvDebugf ''Running alert_metrics operations.'', EvBeginTxWithState, EvLoad,
                        EvQueryBoundNow, EvQueryScanLogs 40 9 100, EvExecInsertMetrics [11, 12],
                        EvSave \<lparr>LastLogTime = 60, LastLogID = 4, LastMetricsDate = 0\<rparr>, EvCommit]\<rparr>)"
    by (simp add: model_defs env_ok_def world0_def)
  from C1_cursor_and_insert[OF run] run show ?thesis
    by (auto simp: env_ok_def persisted_def cursor_def row_time_def row_id_def world0_def)
qed

lemma UpdateAlertMetrics_error:
  assumes "UpdateAlertMetrics e w = (Some err, w')"
  shows "db w' = db w \<and>
         EvCommit \<notin> set (new_events w w') \<and>
         (BeginTxWithState_res e = None \<longrightarrow>
            EvRollback \<in> set (new_events w w') \<or> EvCommitFailed \<in> set (new_events w w'))"
  using assms
  by (auto simp: model_defs split: option.splits sum.splits prod.splits if_splits)

lemma UpdateDailyAlertMetrics_error:
  assumes "UpdateDailyAlertMetrics e w = (Some err, w')"
  shows "db w' = db w \<and>
         EvCommit \<notin> set (new_events w w') \<and>
         (BeginTxWithState_res e = None \<longrightarrow>
            EvRollback \<in> set (new_events w w') \<or> EvCommitFailed \<in> set (new_events w w'))"
  using assms
  by (auto simp: model_defs split: option.splits sum.splits prod.splits if_splits)

lemma UpdateAlertMetrics_db_only:
  assumes "db w1 = db w2"
  shows "fst (UpdateAlertMetrics e w1) = fst (UpdateAlertMetrics e w2) \<and>
         db (snd (UpdateAlertMetrics e w1)) = db (snd (UpdateAlertMetrics e w2))"
  using assms
  by (simp add: model_defs split: option.splits sum.splits prod.splits if_splits)

lemma UpdateDailyAlertMetrics_db_only:
  assumes "db w1 = db w2"
  shows "fst (UpdateDailyAlertMetrics e w1) = fst (UpdateDailyAlertMetrics e w2) \<and>
         db (snd (UpdateDailyAlertMetrics e w1)) = db (snd (UpdateDailyAlertMetrics e w2))"
  using assms
  by (simp add: model_defs split: option.splits sum.splits prod.splits if_splits)

text \<open>
  C2. When \<open>UpdateAlertMetrics\<close> or \<open>UpdateDailyAlertMetrics\<close> returns an error, no commit
  took effect: the database, and with it the persisted \<open>LastLogTime\<close>, \<open>LastLogID\<close> and
  \<open>LastMetricsDate\<close>, is what it was; a transaction that was begun ended by the deferred
  rollback or by the failed commit. Invoking either function again then goes as it
  would have gone from the state before the failed invocation.
\<close>

theorem C2_error_rolls_back:
  assumes "UpdateAlertMetrics e w = (Some err, w') \<or> UpdateDailyAlertMetrics e w = (Some err, w')"
  shows "db w' = db w \<and>
         persisted w' = persisted w \<and>
         EvCommit \<notin> set (new_events w w') \<and>
         (BeginTxWithState_res e = None \<longrightarrow>
            EvRollback \<in> set (new_events w w') \<or> EvCommitFailed \<in> set (new_events w w')) \<and>
         fst (UpdateAlertMetrics e' w') = fst (UpdateAlertMetrics e' w) \<and>
         db (snd (UpdateAlertMetrics e' w')) = db (snd (UpdateAlertMetrics e' w)) \<and>
         fst (UpdateDailyAlertMetrics e' w') = fst (UpdateDailyAlertMetrics e' w) \<and>
         db (snd (UpdateDailyAlertMetrics e' w')) = db (snd (UpdateDailyAlertMetrics e' w))"
proof -
  have a: "db w' = db w \<and> EvCommit \<notin> set (new_events w w') \<and>
         (BeginTxWithState_res e = None \<longrightarrow>
            EvRollback \<in> set (new_events w w') \<or> EvCommitFailed \<in> set (new_events w w'))"
    using assms UpdateAlertMetrics_error[of e w err w'] UpdateDailyAlertMetrics_error[of e w err w']
    by blast
  then have d: "db w' = db w" by simp
  from d have p: "persisted w' = persisted w" by (simp add: persisted_def)
  from a p UpdateAlertMetrics_db_only[OF d, of e'] UpdateDailyAlertMetrics_db_only[OF d, of e']
  show ?thesis by simp
qed

theorem C2_error_rolls_back_witness:
  "UpdateAlertMetrics env_fail_insert (world0 40 9 0)
      = (Some (Wrap ''insert metrics'' (ErrExternal ''connection reset'')),
         \<lparr>db = db (world0 40 9 0),
          trace = [EvDebugf ''Running alert_metrics operations.'', EvBeginTxWithState, EvLoad,
             EvQueryBoundNow, EvQueryScanLogs 40 9 100, EvExecInsertMetrics [11], EvRollback]\<rparr>) \<and>
   BeginTxWithState_res env_fail_insert = None \<and>
   persisted \<lparr>db = db (world0 40 9 0),
          trace = [EvDebugf ''Running alert_metrics operations.'', EvBeginTxWithState, EvLoad,
             EvQueryBoundNow, EvQueryScanLogs 40 9 100, EvExecInsertMetrics [11], EvRollback]\<rparr>
     = \<lparr>LastLogTime = 40, LastLogID = 9, LastMetricsDate = 0\<rparr>"
proof -
  have run: "UpdateAlertMetrics env_fail_insert (world0 40 9 0)
      = (Some (Wrap ''insert metrics'' (ErrExternal ''connection reset'')),
         \<lparr>db = db (world0 40 9 0),
          trace = [EvDebugf ''Running alert_metrics operations.'', EvBeginTxWithState, EvLoad,
             EvQueryBoundNow, EvQueryScanLogs 40 9 100, EvExecInsertMetrics [11], EvRollback]\<rparr>)"
    by (simp add: model_defs env_fail_insert_def env_ok_def world0_def)
  have b: "BeginTxWithState_res env_fail_insert = None"
    by (simp add: env_fail_insert_def env_ok_def)
  from C2_error_rolls_back[OF disjI1[OF run], of env_fail_insert] run b
  show ?thesis by (simp add: persisted_def world0_def)
qed

lemma UpdateDailyAlertMetrics_marker:
  "UpdateDailyAlertMetrics e w = (r, w') \<Longrightarrow> daily_marker \<in> set (new_events w w')"
  by (auto simp: model_defs daily_marker_def split: option.splits sum.splits prod.splits if_splits)

lemma UpdateAlertMetrics_marker:
  "UpdateAlertMetrics e w = (r, w') \<Longrightarrow>
     alert_marker \<in> set (new_events w w') \<and> daily_marker \<notin> set (new_events w w')"
  by (auto simp: model_defs daily_marker_def alert_marker_def split: option.splits sum.splits prod.splits if_splits)

text \<open>
  C9. If the permission check of the context fails, \<open>UpdateAll\<close> returns that error and
  the world is untouched: no call was made, so neither update function ran and the
  cursor state is the same. If the check passes and \<open>UpdateAlertMetrics\<close> fails,
  \<open>UpdateAll\<close> returns its error and \<open>UpdateDailyAlertMetrics\<close> was not invoked. Every
  invocation of either function leaves its marker in the trace.
\<close>

theorem C9_permission_gate:
  "(LimitCheckAny c [System] = Some err \<longrightarrow>
      UpdateAll c e1 e2 w = (Some err, w) \<and> new_events w (snd (UpdateAll c e1 e2 w)) = []) \<and>
   (LimitCheckAny c [System] = None \<and> UpdateAlertMetrics e1 w = (Some err, w1) \<longrightarrow>
      UpdateAll c e1 e2 w = (Some err, w1) \<and>
      daily_marker \<notin> set (new_events w (snd (UpdateAll c e1 e2 w)))) \<and>
   alert_marker \<in> set (new_events w (snd (UpdateAlertMetrics e1 w))) \<and>
   daily_marker \<in> set (new_events w (snd (UpdateDailyAlertMetrics e2 w)))"
proof -
  have m1: "alert_marker \<in> set (new_events w (snd (UpdateAlertMetrics e1 w)))"
    using UpdateAlertMetrics_marker[of e1 w "fst (UpdateAlertMetrics e1 w)" "snd (UpdateAlertMetrics e1 w)"]
    by simp
  have m2: "daily_marker \<in> set (new_events w (snd (UpdateDailyAlertMetrics e2 w)))"
    using UpdateDailyAlertMetrics_marker[of e2 w "fst (UpdateDailyAlertMetrics e2 w)" "snd (UpdateDailyAlertMetrics e2 w)"]
    by simp
  have a: "LimitCheckAny c [System] = Some err \<longrightarrow>
      UpdateAll c e1 e2 w = (Some err, w) \<and> new_events w (snd (UpdateAll c e1 e2 w)) = []"
    by (simp add: UpdateAll_def new_events_def)
  have b: "LimitCheckAny c [System] = None \<and> UpdateAlertMetrics e1 w = (Some err, w1) \<longrightarrow>
      UpdateAll c e1 e2 w = (Some err, w1) \<and>
      daily_marker \<notin> set (new_events w (snd (UpdateAll c e1 e2 w)))"
    using UpdateAlertMetrics_marker[of e1 w "Some err" w1]
    by (simp add: UpdateAll_def)
  from a b m1 m2 show ?thesis by blast
qed

theorem C9_permission_gate_witness:
  "LimitCheckAny ctx_denied [System] = Some (ErrExternal ''permission denied'') \<and>
   UpdateAll ctx_denied (env_ok 100 [] zero_NullTime) (env_ok 100 [] zero_NullTime) (world0 40 9 0)
      = (Some (ErrExternal ''permission denied''), world0 40 9 0) \<and>
   LimitCheckAny ctx_system [System] = None \<and>
   fst (UpdateAll ctx_system env_fail_insert (env_ok 100 [] zero_NullTime) (world0 40 9 0))
      = Some (Wrap ''insert metrics'' (ErrExternal ''connection reset'')) \<and>
   daily_marker \<notin> set (new_events (world0 40 9 0)
       (snd (UpdateAll ctx_system env_fail_insert (env_ok 100 [] zero_NullTime) (world0 40 9 0))))"
proof -
  have p1: "LimitCheckAny ctx_denied [System] = Some (ErrExternal ''permission denied'')"
    by (simp add: ctx_denied_def)
  have p2: "LimitCheckAny ctx_system [System] = None"
    by (simp add: ctx_system_def)
  have run: "UpdateAlertMetrics env_fail_insert (world0 40 9 0)
      = (Some (Wrap ''insert metrics'' (ErrExternal ''connection reset'')),
         snd (UpdateAlertMetrics env_fail_insert (world0 40 9 0)))"
    by (simp add: model_defs env_fail_insert_def env_ok_def world0_def)
  from C9_permission_gate[of ctx_denied "ErrExternal ''permission denied''"
        "env_ok 100 [] zero_NullTime" "env_ok 100 [] zero_NullTime" "world0 40 9 0"] p1
  have a: "UpdateAll ctx_denied (env_ok 100 [] zero_NullTime) (env_ok 100 [] zero_NullTime) (world0 40 9 0)
      = (Some (ErrExternal ''permission denied''), world0 40 9 0)" by blast
  from C9_permission_gate[of ctx_system "Wrap ''insert metrics'' (ErrExternal ''connection reset'')"
        env_fail_insert "env_ok 100 [] zero_NullTime" "world0 40 9 0"
        "snd (UpdateAlertMetrics env_fail_insert (world0 40 9 0))"] p2 run
  have b: "UpdateAll ctx_system env_fail_insert (env_ok 100 [] zero_NullTime) (world0 40 9 0)
      = (Some (Wrap ''insert metrics'' (ErrExternal ''connection reset'')),
         snd (UpdateAlertMetrics env_fail_insert (world0 40 9 0))) \<and>
      daily_marker \<notin> set (new_events (world0 40 9 0)
       (snd (UpdateAll ctx_system env_fail_insert (env_ok 100 [] zero_NullTime) (world0 40 9 0))))"
    by blast
  from b have b1: "fst (UpdateAll ctx_system env_fail_insert (env_ok 100 [] zero_NullTime) (world0 40 9 0))
      = Some (Wrap ''insert metrics'' (ErrExternal ''connection reset''))" by simp
  from b have b2: "daily_marker \<notin> set (new_events (world0 40 9 0)
       (snd (UpdateAll ctx_system env_fail_insert (env_ok 100 [] zero_NullTime) (world0 40 9 0))))" ..
  show ?thesis by (intro conjI) (rule p1 a p2 b1 b2)+
qed

text \<open>
  C10. When the date query of \<open>UpdateDailyAlertMetrics\<close> yields \<^verbatim>\<open>sql.ErrNoRows\<close> or a
  NULL date, and the transaction begins, loads and commits, the function returns nil;
  it made exactly the calls begin, load, query and commit, so the state blob was not
  saved and nothing was inserted, and the database is unchanged.
\<close>

theorem C10_empty_result_is_success:
  assumes "BeginTxWithState_res e = None" and "Load_res e = None" and "Commit_res e = None"
      and "(\<exists>x. stmt_nextDailyMetricsDate e (LastMetricsDate (persisted w)) (LastLogTime (persisted w)) = Inl x
                \<and> errors_Is x ErrNoRows) \<or>
           (\<exists>nt. stmt_nextDailyMetricsDate e (LastMetricsDate (persisted w)) (LastLogTime (persisted w)) = Inr nt
                \<and> \<not> Valid nt)"
  shows "\<exists>w'. UpdateDailyAlertMetrics e w = (None, w') \<and> db w' = db w \<and>
           new_events w w' =
             [daily_marker, EvBeginTxWithState, EvLoad,
              EvQueryNextDailyMetricsDate (LastMetricsDate (persisted w)) (LastLogTime (persisted w)),
              EvCommit]"
  using assms
  by (auto simp: model_defs daily_marker_def zero_NullTime_def)

theorem C10_empty_result_is_success_witness:
  "UpdateDailyAlertMetrics env_norows (world0 345700 9 86400)
     = (None, \<lparr>db = db (world0 345700 9 86400),
               trace = [daily_marker, EvBeginTxWithState, EvLoad,
                        EvQueryNextDailyMetricsDate 86400 345700, EvCommit]\<rparr>) \<and>
   UpdateDailyAlertMetrics (env_ok 0 [] zero_NullTime) (world0 345700 9 86400)
     = (None, \<lparr>db = db (world0 345700 9 86400),
               trace = [daily_marker, EvBeginTxWithState, EvLoad,
                        EvQueryNextDailyMetricsDate 86400 345700, EvCommit]\<rparr>) \<and>
   stmt_nextDailyMetricsDate env_norows 86400 345700 = Inl ErrNoRows \<and>
   errors_Is ErrNoRows ErrNoRows \<and>
   stmt_nextDailyMetricsDate (env_ok 0 [] zero_NullTime) 86400 345700 = Inr zero_NullTime \<and>
   \<not> Valid zero_NullTime"
proof -
  let ?w = "world0 345700 9 86400"
  have p: "LastMetricsDate (persisted ?w) = 86400" "LastLogTime (persisted ?w) = 345700"
    by (simp_all add: persisted_def world0_def)
  have tr: "trace ?w = []" by (simp add: world0_def)
  have n1: "BeginTxWithState_res env_norows = None" "Load_res env_norows = None"
       "Commit_res env_norows = None"
       "stmt_nextDailyMetricsDate env_norows 86400 345700 = Inl ErrNoRows"
    by (simp_all add: env_norows_def env_ok_def)
  have n2: "BeginTxWithState_res (env_ok 0 [] zero_NullTime) = None"
       "Load_res (env_ok 0 [] zero_NullTime) = None"
       "Commit_res (env_ok 0 [] zero_NullTime) = None"
       "stmt_nextDailyMetricsDate (env_ok 0 [] zero_NullTime) 86400 345700 = Inr zero_NullTime"
    by (simp_all add: env_ok_def)
  have v: "\<not> Valid zero_NullTime" "errors_Is ErrNoRows ErrNoRows"
    by (simp_all add: zero_NullTime_def)
  from C10_empty_result_is_success[of env_norows ?w] n1 v p
  obtain w1 where a: "UpdateDailyAlertMetrics env_norows ?w = (None, w1)" "db w1 = db ?w"
       "new_events ?w w1 = [daily_marker, EvBeginTxWithState, EvLoad,
                        EvQueryNextDailyMetricsDate 86400 345700, EvCommit]"
    by auto
  from C10_empty_result_is_success[of "env_ok 0 [] zero_NullTime" ?w] n2 v p
  obtain w2 where b: "UpdateDailyAlertMetrics (env_ok 0 [] zero_NullTime) ?w = (None, w2)" "db w2 = db ?w"
       "new_events ?w w2 = [daily_marker, EvBeginTxWithState, EvLoad,
                        EvQueryNextDailyMetricsDate 86400 345700, EvCommit]"
    by auto
  from a(2,3) tr have w1: "w1 = \<lparr>db = db ?w, trace = [daily_marker, EvBeginTxWithState, EvLoad,
                        EvQueryNextDailyMetricsDate 86400 345700, EvCommit]\<rparr>"
    by (cases w1) (simp add: new_events_def)
  from b(2,3) tr have w2: "w2 = \<lparr>db = db ?w, trace = [daily_marker, EvBeginTxWithState, EvLoad,
                        EvQueryNextDailyMetricsDate 86400 345700, EvCommit]\<rparr>"
    by (cases w2) (simp add: new_events_def)
  show ?thesis
    using a(1) b(1) n1(4) n2(4) v unfolding w1 w2 by (intro conjI)
qed

lemma fold_min_least:
  fixes d :: int
  shows "fold min ds d \<in> set (d # ds) \<and> (\<forall>x\<in>set (d # ds). fold min ds d \<le> x)"
proof -
  have "Min (set (d # ds)) = fold min ds d" by (rule Min.set_eq_fold)
  then show ?thesis using Min_in[of "set (d # ds)"] Min_le[of "set (d # ds)"] by auto
qed

lemma UpdateDailyAlertMetrics_success:
  assumes "UpdateDailyAlertMetrics e w = (None, w')"
  shows "EvQueryNextDailyMetricsDate (LastMetricsDate (persisted w)) (LastLogTime (persisted w))
            \<in> set (new_events w w') \<and>
         EvCommit \<in> set (new_events w w') \<and>
         (case stmt_nextDailyMetricsDate e (LastMetricsDate (persisted w)) (LastLogTime (persisted w)) of
            Inl x \<Rightarrow> errors_Is x ErrNoRows \<and> db w' = db w \<and>
                     (\<forall>d. EvExecInsertDailyMetrics d \<notin> set (new_events w w'))
          | Inr nt \<Rightarrow>
              if Valid nt then
                committed (db w') = committed (db w) @ [InsertDailyMetrics nt] \<and>
                persisted w' = (persisted w)\<lparr>LastMetricsDate := Time nt\<rparr> \<and>
                EvExecInsertDailyMetrics nt \<in> set (new_events w w')
              else db w' = db w \<and> (\<forall>d. EvExecInsertDailyMetrics d \<notin> set (new_events w w')))"
  using assms
  by (auto simp: model_defs zero_NullTime_def split: option.splits sum.splits prod.splits if_splits)

text \<open>
  C5. A successful \<open>UpdateDailyAlertMetrics\<close> issued the date query with the persisted
  \<open>LastMetricsDate\<close> and \<open>LastLogTime\<close> and committed. When the statement answers as
  the spec describes it: if a date strictly after \<open>LastMetricsDate\<close> and strictly before
  the day of \<open>LastLogTime\<close> exists, the earliest such date was inserted and
  \<open>LastMetricsDate\<close> is set to it, the rest of the state unchanged; if none exists,
  nothing was inserted and the database is unchanged.
\<close>

theorem C5_next_daily_date:
  assumes "UpdateDailyAlertMetrics e w = (None, w')"
      and "next_date_answer days (LastMetricsDate (persisted w)) (LastLogTime (persisted w))
             (stmt_nextDailyMetricsDate e (LastMetricsDate (persisted w)) (LastLogTime (persisted w)))"
  shows "EvQueryNextDailyMetricsDate (LastMetricsDate (persisted w)) (LastLogTime (persisted w))
            \<in> set (new_events w w') \<and>
         EvCommit \<in> set (new_events w w') \<and>
         (case candidate_dates days (LastMetricsDate (persisted w)) (LastLogTime (persisted w)) of
            [] \<Rightarrow> db w' = db w \<and> (\<forall>d. EvExecInsertDailyMetrics d \<notin> set (new_events w w'))
          | d # ds \<Rightarrow>
              committed (db w') = committed (db w) @ [InsertDailyMetrics \<lparr>Time = fold min ds d, Valid = True\<rparr>] \<and>
              persisted w' = (persisted w)\<lparr>LastMetricsDate := fold min ds d\<rparr> \<and>
              fold min ds d \<in> set days \<and>
              LastMetricsDate (persisted w) < fold min ds d \<and>
              fold min ds d < day_of (LastLogTime (persisted w)) \<and>
              (\<forall>x\<in>set days. LastMetricsDate (persisted w) < x \<and> x < day_of (LastLogTime (persisted w))
                   \<longrightarrow> fold min ds d \<le> x))"
proof (cases "candidate_dates days (LastMetricsDate (persisted w)) (LastLogTime (persisted w))")
  case Nil
  with assms(2) UpdateDailyAlertMetrics_success[OF assms(1)] show ?thesis
    by (auto simp: next_date_answer_def split: sum.splits if_splits)
next
  case (Cons d ds)
  let ?n = "fold min ds d"
  let ?c = "candidate_dates days (LastMetricsDate (persisted w)) (LastLogTime (persisted w))"
  from Cons assms(2) have r: "stmt_nextDailyMetricsDate e (LastMetricsDate (persisted w)) (LastLogTime (persisted w))
      = Inr \<lparr>Time = ?n, Valid = True\<rparr>"
    by (simp add: next_date_answer_def)
  from fold_min_least[of ds d] Cons have m: "?n \<in> set ?c" "\<forall>x\<in>set ?c. ?n \<le> x"
    by simp_all
  from m(1) have in_days: "?n \<in> set days" "LastMetricsDate (persisted w) < ?n"
      "?n < day_of (LastLogTime (persisted w))"
    by (simp_all add: candidate_dates_def)
  from m(2) have least: "\<forall>x\<in>set days. LastMetricsDate (persisted w) < x \<and> x < day_of (LastLogTime (persisted w))
                   \<longrightarrow> ?n \<le> x"
    by (simp add: candidate_dates_def)
  from UpdateDailyAlertMetrics_success[OF assms(1)] r
  have s: "EvQueryNextDailyMetricsDate (LastMetricsDate (persisted w)) (LastLogTime (persisted w))
            \<in> set (new_events w w')" "EvCommit \<in> set (new_events w w')"
      "committed (db w') = committed (db w) @ [InsertDailyMetrics \<lparr>Time = ?n, Valid = True\<rparr>]"
      "persisted w' = (persisted w)\<lparr>LastMetricsDate := ?n\<rparr>"
    by simp_all
  from s in_days least Cons show ?thesis by simp
qed

lemma nextDailyMetricsDate_sql_answer:
  "next_date_answer days a b (nextDailyMetricsDate_sql days a b)"
  by (simp add: next_date_answer_def nextDailyMetricsDate_sql_def split: list.splits)

theorem C5_next_daily_date_witness:
  "UpdateDailyAlertMetrics (env_daily [259200, 172800, 432000]) (world0 345700 9 86400)
     = (None, \<lparr>db = \<lparr>state_blob = \<lparr>LastLogTime = 345700, LastLogID = 9, LastMetricsDate = 172800\<rparr>,
                     committed = [InsertDailyMetrics \<lparr>Time = 172800, Valid = True\<rparr>]\<rparr>,
               trace = [daily_marker, EvBeginTxWithState, EvLoad, EvQueryNextDailyMetricsDate 86400 345700,
                        EvExecInsertDailyMetrics \<lparr>Time = 172800, Valid = True\<rparr>,
                        EvSave \<lparr>LastLogTime = 345700, LastLogID = 9, LastMetricsDate = 172800\<rparr>,
                        EvCommit]\<rparr>) \<and>
   candidate_dates [259200, 172800, 432000] 86400 345700 = [259200, 172800] \<and>
   next_date_answer [259200, 172800, 432000] 86400 345700
      (stmt_nextDailyMetricsDate (env_daily [259200, 172800, 432000]) 86400 345700) \<and>
   (172800::int) < day_of 345700"
proof -
  let ?w = "world0 345700 9 86400"
  let ?e = "env_daily [259200, 172800, 432000]"
  have p: "LastMetricsDate (persisted ?w) = 86400" "LastLogTime (persisted ?w) = 345700"
    by (simp_all add: persisted_def world0_def)
  have c: "candidate_dates [259200, 172800, 432000] 86400 345700 = [259200, 172800]"
    by (simp add: candidate_dates_def day_of_def day_len_def)
  have q: "stmt_nextDailyMetricsDate ?e 86400 345700 = Inr \<lparr>Time = 172800, Valid = True\<rparr>"
    by (simp add: env_daily_def env_ok_def nextDailyMetricsDate_sql_def c)
  have run: "UpdateDailyAlertMetrics ?e ?w
     = (None, \<lparr>db = \<lparr>state_blob = \<lparr>LastLogTime = 345700, LastLogID = 9, LastMetricsDate = 172800\<rparr>,
                     committed = [InsertDailyMetrics \<lparr>Time = 172800, Valid = True\<rparr>]\<rparr>,
               trace = [daily_marker, EvBeginTxWithState, EvLoad, EvQueryNextDailyMetricsDate 86400 345700,
                        EvExecInsertDailyMetrics \<lparr>Time = 172800, Valid = True\<rparr>,
                        EvSave \<lparr>LastLogTime = 345700, LastLogID = 9, LastMetricsDate = 172800\<rparr>,
                        EvCommit]\<rparr>)"
    by (simp add: model_defs env_daily_def env_ok_def world0_def nextDailyMetricsDate_sql_def c
          daily_marker_def)
  have a: "next_date_answer [259200, 172800, 432000] 86400 345700 (stmt_nextDailyMetricsDate ?e 86400 345700)"
    by (simp add: env_daily_def env_ok_def nextDailyMetricsDate_sql_answer)
  from C5_next_daily_date[OF run, of "[259200, 172800, 432000]"] a p c
  have "(172800::int) < day_of 345700" by simp
  with run c a show ?thesis by simp
qed

lemma map_Inr_eq: "map Inr xs = map Inr ys \<longleftrightarrow> xs = ys"
  by (rule inj_map_eq_map) (simp add: inj_on_def)

lemma UpdateAlertMetrics_success_named:
  assumes "UpdateAlertMetrics e w = (None, w')"
      and "stmt_boundNow e = Inr bound"
      and "stmt_scanLogs e (LastLogTime (persisted w)) (LastLogID (persisted w)) bound = Inr (map Inr batch)"
  shows "(batch \<noteq> [] \<longrightarrow> LastLogTime (persisted w') = row_time (last batch) \<and>
              LastLogID (persisted w') = row_id (last batch)) \<and>
         (batch = [] \<longrightarrow> LastLogTime (persisted w') = bound \<and> LastLogID (persisted w') = 0)"
proof -
  from UpdateAlertMetrics_success[OF assms(1)] obtain bound' batch' where
    h: "stmt_boundNow e = Inr bound'"
       "stmt_scanLogs e (LastLogTime (persisted w)) (LastLogID (persisted w)) bound' = Inr (map Inr batch')"
       "batch' \<noteq> [] \<longrightarrow> LastLogTime (persisted w') = row_time (last batch') \<and>
              LastLogID (persisted w') = row_id (last batch')"
       "batch' = [] \<longrightarrow> LastLogTime (persisted w') = bound' \<and> LastLogID (persisted w') = 0"
    by blast
  from h(1) assms(2) have b: "bound' = bound" by simp
  from h(2) assms(3) b have "map Inr batch' = (map Inr batch :: (error + row) list)" by simp
  then have "batch' = batch" by (simp only: map_Inr_eq)
  with h(3,4) b show ?thesis by simp
qed

text \<open>
  C3, as the spec states it, fails: a successful invocation with a non-empty batch
  moves \<open>LastLogTime\<close> to the time of the last row. Here the batch holds one row at
  time 5, after the cursor \<open>(0, 0)\<close> and before the bound 10, and \<open>LastLogTime\<close> goes
  from 0 to 5.
\<close>

theorem C3_counterexample:
  "UpdateAlertMetrics (env_ok 10 [(1, 5, 7)] zero_NullTime) (world0 0 0 0)
     = (None, \<lparr>db = \<lparr>state_blob = \<lparr>LastLogTime = 5, LastLogID = 7, LastMetricsDate = 0\<rparr>,
                     committed = [InsertMetrics [1]]\<rparr>,
               trace = [alert_marker, EvBeginTxWithState, EvLoad, EvQueryBoundNow,
                        EvQueryScanLogs 0 0 10, EvExecInsertMetrics [1],
                        EvSave \<lparr>LastLogTime = 5, LastLogID = 7, LastMetricsDate = 0\<rparr>, EvCommit]\<rparr>) \<and>
   stmt_scanLogs (env_ok 10 [(1, 5, 7)] zero_NullTime) 0 0 10 = Inr [Inr (1, 5, 7)] \<and>
   cursor_lt (cursor (persisted (world0 0 0 0))) (row_time (1, 5, 7), row_id (1, 5, 7)) \<and>
   row_time (1, 5, 7) \<le> 10 \<and>
   LastLogTime (persisted (world0 0 0 0)) = 0 \<and>
   LastLogTime (persisted (snd (UpdateAlertMetrics (env_ok 10 [(1, 5, 7)] zero_NullTime) (world0 0 0 0)))) = 5"
  by (simp add: model_defs env_ok_def world0_def alert_marker_def cursor_lt_def)

text \<open>
  C3, amended. For a successful invocation whose batch lies strictly after the
  cursor: on a non-empty batch the cursor moves to the last row of the batch, so
  \<open>LastLogTime\<close> does not go back, and where it stays the same \<open>LastLogID\<close> strictly
  increases; on an empty batch \<open>LastLogTime\<close> becomes \<open>boundNow\<close> and \<open>LastLogID\<close>
  becomes 0.
\<close>

theorem C3_cursor_steps:
  assumes "UpdateAlertMetrics e w = (None, w')"
      and "stmt_boundNow e = Inr bound"
      and "stmt_scanLogs e (LastLogTime (persisted w)) (LastLogID (persisted w)) bound = Inr (map Inr batch)"
      and "\<forall>r\<in>set batch. cursor_lt (cursor (persisted w)) (row_time r, row_id r)"
  shows "(batch \<noteq> [] \<longrightarrow>
            LastLogTime (persisted w') = row_time (last batch) \<and>
            LastLogID (persisted w') = row_id (last batch) \<and>
            LastLogTime (persisted w) \<le> LastLogTime (persisted w') \<and>
            (LastLogTime (persisted w') = LastLogTime (persisted w) \<longrightarrow>
               LastLogID (persisted w) < LastLogID (persisted w'))) \<and>
         (batch = [] \<longrightarrow>
            LastLogTime (persisted w') = bound \<and> LastLogID (persisted w') = 0)"
proof -
  from UpdateAlertMetrics_success_named[OF assms(1,2,3)]
  have ne: "batch \<noteq> [] \<longrightarrow> LastLogTime (persisted w') = row_time (last batch) \<and>
              LastLogID (persisted w') = row_id (last batch)"
   and em: "batch = [] \<longrightarrow> LastLogTime (persisted w') = bound \<and> LastLogID (persisted w') = 0"
    by simp_all
  have "batch \<noteq> [] \<longrightarrow> cursor_lt (cursor (persisted w)) (row_time (last batch), row_id (last batch))"
    using assms(4) by simp
  with ne em show ?thesis by (auto simp: cursor_lt_def cursor_def)
qed

theorem C3_cursor_steps_witness:
  "UpdateAlertMetrics (env_ok 100 [(11, 50, 3), (12, 50, 4)] zero_NullTime) (world0 50 2 0)
     = (None, \<lparr>db = \<lparr>state_blob = \<lparr>LastLogTime = 50, LastLogID = 4, LastMetricsDate = 0\<rparr>,
                     committed = [InsertMetrics [11, 12]]\<rparr>,
               trace = [alert_marker, EvBeginTxWithState, EvLoad, EvQueryBoundNow,
                        EvQueryScanLogs 50 2 100, EvExecInsertMetrics [11, 12],
                        EvSave \<lparr>LastLogTime = 50, LastLogID = 4, LastMetricsDate = 0\<rparr>, EvCommit]\<rparr>) \<and>
   cursor_lt (cursor (persisted (world0 50 2 0))) (row_time (11, 50, 3), row_id (11, 50, 3)) \<and>
   cursor_lt (cursor (persisted (world0 50 2 0))) (row_time (12, 50, 4), row_id (12, 50, 4)) \<and>
   LastLogTime (persisted (world0 50 2 0)) = 50 \<and>
   LastLogID (persisted (world0 50 2 0)) = 2 \<and>
   LastLogTime (persisted (snd (UpdateAlertMetrics (env_ok 100 [(11, 50, 3), (12, 50, 4)] zero_NullTime) (world0 50 2 0)))) = 50 \<and>
   LastLogID (persisted (world0 50 2 0))
     < LastLogID (persisted (snd (UpdateAlertMetrics (env_ok 100 [(11, 50, 3), (12, 50, 4)] zero_NullTime) (world0 50 2 0))))"
proof -
  let ?e = "env_ok 100 [(11, 50, 3), (12, 50, 4)] zero_NullTime"
  let ?w = "world0 50 2 0"
  let ?w' = "\<lparr>db = \<lparr>state_blob = \<lparr>LastLogTime = 50, LastLogID = 4, LastMetricsDate = 0\<rparr>,
                     committed = [InsertMetrics [11, 12]]\<rparr>,
               trace = [alert_marker, EvBeginTxWithState, EvLoad, EvQueryBoundNow,
                        EvQueryScanLogs 50 2 100, EvExecInsertMetrics [11, 12],
                        EvSave \<lparr>LastLogTime = 50, LastLogID = 4, LastMetricsDate = 0\<rparr>, EvCommit]\<rparr>"
  have run: "UpdateAlertMetrics ?e ?w = (None, ?w')"
    by (simp add: model_defs env_ok_def world0_def alert_marker_def)
  have b: "stmt_boundNow ?e = Inr 100" by (simp add: env_ok_def)
  have s: "stmt_scanLogs ?e (LastLogTime (persisted ?w)) (LastLogID (persisted ?w)) 100
             = Inr (map Inr [(11, 50, 3), (12, 50, 4)])"
    by (simp add: env_ok_def)
  have c1: "cursor_lt (cursor (persisted ?w)) (row_time (11, 50, 3), row_id (11, 50, 3))"
    and c2: "cursor_lt (cursor (persisted ?w)) (row_time (12, 50, 4), row_id (12, 50, 4))"
    by (simp_all add: cursor_lt_def cursor_def persisted_def world0_def row_time_def row_id_def)
  have p: "LastLogTime (persisted ?w) = 50" "LastLogID (persisted ?w) = 2"
    by (simp_all add: persisted_def world0_def)
  have t: "LastLogTime (persisted ?w') = 50" by (simp add: persisted_def)
  from c1 c2 have h: "\<forall>r\<in>set [(11, 50, 3), (12, 50, 4)]. cursor_lt (cursor (persisted ?w)) (row_time r, row_id r)"
    by simp
  from C3_cursor_steps[OF run b s h] p t
  have "LastLogID (persisted ?w) < LastLogID (persisted ?w')" by simp
  with run c1 c2 p t show ?thesis by simp
qed

text \<open>
  C4, as the claim states it, fails: with an empty batch and \<open>boundNow\<close> equal to
  \<open>LastLogTime\<close>, the cursor \<open>(100, 5)\<close> becomes \<open>(100, 0)\<close>, which is before it.
\<close>

theorem C4_counterexample:
  "UpdateAlertMetrics (env_ok 100 [] zero_NullTime) (world0 100 5 0)
     = (None, \<lparr>db = \<lparr>state_blob = \<lparr>LastLogTime = 100, LastLogID = 0, LastMetricsDate = 0\<rparr>,
                     committed = []\<rparr>,
               trace = [alert_marker, EvBeginTxWithState, EvLoad, EvQueryBoundNow,
                        EvQueryScanLogs 100 5 100,
                        EvSave \<lparr>LastLogTime = 100, LastLogID = 0, LastMetricsDate = 0\<rparr>, EvCommit]\<rparr>) \<and>
   stmt_boundNow (env_ok 100 [] zero_NullTime) = Inr 100 \<and>
   stmt_scanLogs (env_ok 100 [] zero_NullTime) 100 5 100 = Inr [] \<and>
   LastLogTime (persisted (world0 100 5 0)) \<le> 100 \<and>
   cursor (persisted (world0 100 5 0)) = (100, 5) \<and>
   cursor (persisted (snd (UpdateAlertMetrics (env_ok 100 [] zero_NullTime) (world0 100 5 0)))) = (100, 0) \<and>
   cursor_lt (cursor (persisted (snd (UpdateAlertMetrics (env_ok 100 [] zero_NullTime) (world0 100 5 0)))))
             (cursor (persisted (world0 100 5 0)))"
  by (simp add: model_defs env_ok_def world0_def alert_marker_def cursor_lt_def)

text \<open>
  C4, amended. For a successful invocation whose batch lies strictly after the cursor
  and no later than \<open>boundNow\<close>, with \<open>boundNow\<close> not earlier than \<open>LastLogTime\<close>: on a
  non-empty batch the cursor advances strictly; \<open>LastLogTime\<close> never goes back and
  stays within \<open>boundNow\<close>; on an empty batch the cursor does not go back when
  \<open>boundNow\<close> is strictly later than \<open>LastLogTime\<close> or \<open>LastLogID\<close> is at most 0.
\<close>

theorem C4_cursor_monotone:
  assumes "UpdateAlertMetrics e w = (None, w')"
      and "stmt_boundNow e = Inr bound"
      and "stmt_scanLogs e (LastLogTime (persisted w)) (LastLogID (persisted w)) bound = Inr (map Inr batch)"
      and "\<forall>r\<in>set batch. cursor_lt (cursor (persisted w)) (row_time r, row_id r) \<and> row_time r \<le> bound"
      and "LastLogTime (persisted w) \<le> bound"
  shows "(batch \<noteq> [] \<longrightarrow> cursor_lt (cursor (persisted w)) (cursor (persisted w'))) \<and>
         LastLogTime (persisted w) \<le> LastLogTime (persisted w') \<and>
         LastLogTime (persisted w') \<le> bound \<and>
         (batch = [] \<and> (LastLogTime (persisted w) < bound \<or> LastLogID (persisted w) \<le> 0) \<longrightarrow>
            cursor_le (cursor (persisted w)) (cursor (persisted w')))"
proof -
  from UpdateAlertMetrics_success_named[OF assms(1,2,3)]
  have ne: "batch \<noteq> [] \<longrightarrow> LastLogTime (persisted w') = row_time (last batch) \<and>
              LastLogID (persisted w') = row_id (last batch)"
   and em: "batch = [] \<longrightarrow> LastLogTime (persisted w') = bound \<and> LastLogID (persisted w') = 0"
    by simp_all
  have l: "batch \<noteq> [] \<longrightarrow> cursor_lt (cursor (persisted w)) (row_time (last batch), row_id (last batch))
             \<and> row_time (last batch) \<le> bound"
    using assms(4) by simp
  show ?thesis
  proof (cases "batch = []")
    case True
    with em assms(5) show ?thesis
      by (auto simp: cursor_le_def cursor_lt_def cursor_def)
  next
    case False
    with ne l show ?thesis
      by (auto simp: cursor_le_def cursor_lt_def cursor_def)
  qed
qed

theorem C4_cursor_monotone_witness:
  "UpdateAlertMetrics (env_ok 100 [(11, 50, 3), (12, 60, 4)] zero_NullTime) (world0 40 9 0)
     = (None, \<lparr>db = \<lparr>state_blob = \<lparr>LastLogTime = 60, LastLogID = 4, LastMetricsDate = 0\<rparr>,
                     committed = [InsertMetrics [11, 12]]\<rparr>,
               trace = [alert_marker, EvBeginTxWithState, EvLoad, EvQueryBoundNow,
                        EvQueryScanLogs 40 9 100, EvExecInsertMetrics [11, 12],
                        EvSave \<lparr>LastLogTime = 60, LastLogID = 4, LastMetricsDate = 0\<rparr>, EvCommit]\<rparr>) \<and>
   cursor_lt (cursor (persisted (world0 40 9 0))) (row_time (11, 50, 3), row_id (11, 50, 3)) \<and>
   row_time (11, 50, 3) \<le> 100 \<and>
   cursor_lt (cursor (persisted (world0 40 9 0))) (row_time (12, 60, 4), row_id (12, 60, 4)) \<and>
   row_time (12, 60, 4) \<le> 100 \<and>
   LastLogTime (persisted (world0 40 9 0)) \<le> 100 \<and>
   cursor_lt (cursor (persisted (world0 40 9 0)))
     (cursor (persisted (snd (UpdateAlertMetrics (env_ok 100 [(11, 50, 3), (12, 60, 4)] zero_NullTime) (world0 40 9 0))))) \<and>
   UpdateAlertMetrics (env_ok 100 [] zero_NullTime) (world0 40 9 0)
     = (None, \<lparr>db = \<lparr>state_blob = \<lparr>LastLogTime = 100, LastLogID = 0, LastMetricsDate = 0\<rparr>,
                     committed = []\<rparr>,
               trace = [alert_marker, EvBeginTxWithState, EvLoad, EvQueryBoundNow,
                        EvQueryScanLogs 40 9 100,
                        EvSave \<lparr>LastLogTime = 100, LastLogID = 0, LastMetricsDate = 0\<rparr>, EvCommit]\<rparr>) \<and>
   cursor_le (cursor (persisted (world0 40 9 0)))
     (cursor (persisted (snd (UpdateAlertMetrics (env_ok 100 [] zero_NullTime) (world0 40 9 0)))))"
proof -
  let ?e = "env_ok 100 [(11, 50, 3), (12, 60, 4)] zero_NullTime"
  let ?en = "env_ok 100 [] zero_NullTime"
  let ?w = "world0 40 9 0"
  let ?w' = "\<lparr>db = \<lparr>state_blob = \<lparr>LastLogTime = 60, LastLogID = 4, LastMetricsDate = 0\<rparr>,
                     committed = [InsertMetrics [11, 12]]\<rparr>,
               trace = [alert_marker, EvBeginTxWithState, EvLoad, EvQueryBoundNow,
                        EvQueryScanLogs 40 9 100, EvExecInsertMetrics [11, 12],
                        EvSave \<lparr>LastLogTime = 60, LastLogID = 4, LastMetricsDate = 0\<rparr>, EvCommit]\<rparr>"
  let ?wn = "\<lparr>db = \<lparr>state_blob = \<lparr>LastLogTime = 100, LastLogID = 0, LastMetricsDate = 0\<rparr>,
                     committed = []\<rparr>,
               trace = [alert_marker, EvBeginTxWithState, EvLoad, EvQueryBoundNow,
                        EvQueryScanLogs 40 9 100,
                        EvSave \<lparr>LastLogTime = 100, LastLogID = 0, LastMetricsDate = 0\<rparr>, EvCommit]\<rparr>"
  have run: "UpdateAlertMetrics ?e ?w = (None, ?w')"
    by (simp add: model_defs env_ok_def world0_def alert_marker_def)
  have run0: "UpdateAlertMetrics ?en ?w = (None, ?wn)"
    by (simp add: model_defs env_ok_def world0_def alert_marker_def)
  have b: "stmt_boundNow ?e = Inr 100" "stmt_boundNow ?en = Inr 100" by (simp_all add: env_ok_def)
  have s: "stmt_scanLogs ?e (LastLogTime (persisted ?w)) (LastLogID (persisted ?w)) 100
             = Inr (map Inr [(11, 50, 3), (12, 60, 4)])"
    by (simp add: env_ok_def)
  have s0: "stmt_scanLogs ?en (LastLogTime (persisted ?w)) (LastLogID (persisted ?w)) 100
             = Inr (map Inr [])"
    by (simp add: env_ok_def)
  have c: "cursor_lt (cursor (persisted ?w)) (row_time (11, 50, 3), row_id (11, 50, 3))"
          "row_time (11, 50, 3) \<le> 100"
          "cursor_lt (cursor (persisted ?w)) (row_time (12, 60, 4), row_id (12, 60, 4))"
          "row_time (12, 60, 4) \<le> 100"
    by (simp_all add: cursor_lt_def cursor_def persisted_def world0_def row_time_def row_id_def)
  have p: "LastLogTime (persisted ?w) \<le> 100" "LastLogTime (persisted ?w) < 100"
    by (simp_all add: persisted_def world0_def)
  from c have h: "\<forall>r\<in>set [(11, 50, 3), (12, 60, 4)].
        cursor_lt (cursor (persisted ?w)) (row_time r, row_id r) \<and> row_time r \<le> 100"
    by simp
  have h0: "\<forall>r\<in>set ([] :: row list).
        cursor_lt (cursor (persisted ?w)) (row_time r, row_id r) \<and> row_time r \<le> 100"
    by simp
  from C4_cursor_monotone[OF run b(1) s h p(1)]
  have r1: "cursor_lt (cursor (persisted ?w)) (cursor (persisted ?w'))" by simp
  from C4_cursor_monotone[OF run0 b(2) s0 h0 p(1)] p(2)
  have r2: "cursor_le (cursor (persisted ?w)) (cursor (persisted ?wn))" by simp
  from run run0 c p(1) r1 r2 show ?thesis by simp
qed

section \<open>Properties of the commands\<close>

lemma retry_loop_attempts:
  "i < snd (retry_loop tr op i n) \<and> snd (retry_loop tr op i n) \<le> i + max n 1"
proof (induction tr op i n rule: retry_loop.induct)
  case (1 transient op i n)
  show ?case
  proof (cases "op i")
    case (Inr v)
    then show ?thesis by (subst (1 2) retry_loop.simps) simp
  next
    case (Inl e)
    show ?thesis
    proof (cases "transient e \<and> 1 < n")
      case True
      with Inl 1[of e] show ?thesis
        by (subst (1 2) retry_loop.simps) (simp, linarith)
    next
      case False
      with Inl show ?thesis by (subst (1 2) retry_loop.simps) auto
    qed
  qed
qed

lemma retry_loop_exhaust:
  "0 < n \<Longrightarrow> (\<forall>k. i \<le> k \<and> k < i + n \<longrightarrow> (\<exists>e. op k = Inl e \<and> tr e)) \<Longrightarrow>
     retry_loop tr op i n = (op (i + n - 1), i + n)"
proof (induction tr op i n rule: retry_loop.induct)
  case (1 transient op i n)
  from 1(3) obtain e where e: "op i = Inl e" "transient e"
    using 1(2) by (metis le_refl less_add_same_cancel1)
  show ?case
  proof (cases "1 < n")
    case True
    have "retry_loop transient op (Suc i) (n - 1) = (op (Suc i + (n - 1) - 1), Suc i + (n - 1))"
    proof (rule 1(1)[OF e(1)])
      show "transient e \<and> 1 < n" using e True by simp
      show "0 < n - 1" using True by simp
      show "\<forall>k. Suc i \<le> k \<and> k < Suc i + (n - 1) \<longrightarrow> (\<exists>e. op k = Inl e \<and> transient e)"
        using 1(3) True by auto
    qed
    with e True show ?thesis
      by (subst retry_loop.simps) simp
  next
    case False
    with 1(2) have "n = 1" by simp
    with e show ?thesis by (subst retry_loop.simps) simp
  qed
qed

lemma retry_loop_logical:
  "op i = Inl e \<Longrightarrow> \<not> tr e \<Longrightarrow> retry_loop tr op i n = (Inl e, Suc i)"
  by (subst retry_loop.simps) simp

lemma getConfig_empty_db_url:
  assumes "GetString (vp c) ''db-url'' = []"
  shows "snd (fst (getConfig c tr)) = Some ErrDBRequired \<and> snd (getConfig c tr) = tr"
  using assms by (simp add: getConfig_def Let_def)

lemma logger_setup_events:
  "set (logger_setup c) \<subseteq> {CmdEnableJSON, CmdEnableDebug, CmdErrorsOnly}"
  by (auto simp: logger_setup_def Let_def)

lemma getConfig_trace:
  "snd (getConfig c tr) = tr \<or> snd (getConfig c tr) = tr @ [CmdEnableStacks]"
  by (simp add: getConfig_def Let_def split: option.splits)

lemma RootCmd_serve_drivers:
  assumes "RootCmd_serve c cfg tr = (r, tr')"
      and "CmdNewApp cfg' sdb \<in> set tr'"
  shows "CmdNewApp cfg' sdb \<in> set tr \<or> (\<forall>d\<in>set (db_drivers sdb). d = wrappedDriver)"
  using assms
  unfolding RootCmd_serve_def Let_def OpenConnector_def
  by (auto simp: db_drivers_def split: sum.splits option.splits if_splits prod.splits)

lemma started_dbs_iff:
  "sdb \<in> set (started_dbs tr) \<longleftrightarrow> (\<exists>cfg. CmdNewApp cfg sdb \<in> set tr)"
  by (induction tr rule: started_dbs.induct) auto

lemma RootCmd_RunE_trace:
  assumes "getConfig c (logger_setup c) = ((cfg, err), tr1)"
      and "RootCmd_serve c cfg tr1 = (r, tr2)"
  shows "set (snd (RootCmd_RunE c)) \<subseteq> set (logger_setup c) \<union> set tr1 \<union> set tr2 \<union> range CmdFlush"
  unfolding RootCmd_RunE_def Let_def
  by (auto simp: assms split: option.splits sum.splits)

lemma RootCmd_RunE_drivers:
  assumes "CmdNewApp cfg' sdb \<in> set (snd (RootCmd_RunE c))"
  shows "\<forall>d\<in>set (db_drivers sdb). d = wrappedDriver"
proof -
  obtain cfg err tr1 where g: "getConfig c (logger_setup c) = ((cfg, err), tr1)"
    by (metis prod.collapse)
  obtain r tr2 where s: "RootCmd_serve c cfg tr1 = (r, tr2)"
    by (metis prod.collapse)
  have l: "CmdNewApp cfg' sdb \<notin> set (logger_setup c)"
    using logger_setup_events[of c] by auto
  have t1: "CmdNewApp cfg' sdb \<notin> set tr1"
    using getConfig_trace[of c "logger_setup c"] g l by auto
  from RootCmd_RunE_trace[OF g s] assms l t1 have "CmdNewApp cfg' sdb \<in> set tr2" by auto
  from RootCmd_serve_drivers[OF s this] t1 show ?thesis by simp
qed

text \<open>
  C6. \<open>RootCmd\<close> wraps the Postgres driver in a retry driver with the bound 10, and
  every database the app is started on is opened through that driver. With the retry
  loop as the spec describes it, an operation is attempted at least once and at most
  10 times; when all 10 attempts fail with transient errors the error of the tenth is
  returned, and an error that is not transient is returned at once.
\<close>

theorem C6_retry_bound:
  "wrappedDriver = RetryDriver stdlib_Driver 10 \<and>
   1 \<le> snd (run_with wrappedDriver transient op) \<and>
   snd (run_with wrappedDriver transient op) \<le> 10 \<and>
   ((\<forall>k<10. \<exists>e. op k = Inl e \<and> transient e) \<longrightarrow>
        run_with wrappedDriver transient op = (op 9, 10)) \<and>
   (\<forall>e. op 0 = Inl e \<and> \<not> transient e \<longrightarrow> run_with wrappedDriver transient op = (Inl e, 1)) \<and>
   (\<forall>sdb\<in>set (started_dbs (snd (RootCmd_RunE c))). \<forall>d\<in>set (db_drivers sdb). d = wrappedDriver)"
proof -
  have w: "wrappedDriver = RetryDriver stdlib_Driver 10"
    by (simp add: wrappedDriver_def NewRetryDriver_def)
  have a: "1 \<le> snd (run_with wrappedDriver transient op) \<and> snd (run_with wrappedDriver transient op) \<le> 10"
    using retry_loop_attempts[of 0 transient op 10] by (simp add: w)
  have b: "(\<forall>k<10. \<exists>e. op k = Inl e \<and> transient e) \<longrightarrow>
        run_with wrappedDriver transient op = (op 9, 10)"
    using retry_loop_exhaust[of 10 0 op transient] by (simp add: w)
  have l: "\<forall>e. op 0 = Inl e \<and> \<not> transient e \<longrightarrow> run_with wrappedDriver transient op = (Inl e, 1)"
    using retry_loop_logical[of op 0 _ transient 10] by (simp add: w)
  have d: "\<forall>sdb\<in>set (started_dbs (snd (RootCmd_RunE c))). \<forall>d\<in>set (db_drivers sdb). d = wrappedDriver"
    using RootCmd_RunE_drivers[of _ _ c] by (auto simp: started_dbs_iff)
  from w a b l d show ?thesis by blast
qed

theorem C6_retry_bound_witness:
  "run_with wrappedDriver always_transient failing_op = (Inl (ErrExternal ''connection refused''), 10) \<and>
   failing_op 9 = Inl (ErrExternal ''connection refused'') \<and>
   always_transient (ErrExternal ''connection refused'') \<and>
   started_dbs (snd (RootCmd_RunE (cmd_env0 ''postgres://db'' chicago)))
     = [OpenDB (Connector (RetryDriver stdlib_Driver 10) ''postgres://db'')] \<and>
   db_drivers (OpenDB (Connector (RetryDriver stdlib_Driver 10) ''postgres://db'')) = [wrappedDriver]"
proof -
  note th = C6_retry_bound[of always_transient failing_op "cmd_env0 ''postgres://db'' chicago"]
  have f: "\<forall>k<10. \<exists>e. failing_op k = Inl e \<and> always_transient e"
    by (simp add: failing_op_def always_transient_def)
  from th f have r: "run_with wrappedDriver always_transient failing_op = (failing_op 9, 10)"
    by blast
  have s: "started_dbs (snd (RootCmd_RunE (cmd_env0 ''postgres://db'' chicago)))
     = [OpenDB (Connector (RetryDriver stdlib_Driver 10) ''postgres://db'')]"
    by (simp add: RootCmd_RunE_def RootCmd_serve_def logger_setup_def getConfig_def Let_def
          cmd_env0_def viper0_def OpenConnector_def wrappedDriver_def NewRetryDriver_def)
  have d: "db_drivers (OpenDB (Connector (RetryDriver stdlib_Driver 10) ''postgres://db'')) = [wrappedDriver]"
    by (simp add: db_drivers_def wrappedDriver_def NewRetryDriver_def)
  from r s d show ?thesis
    by (simp add: failing_op_def always_transient_def)
qed

text \<open>
  C7. When \<open>db-url\<close> is empty, \<open>getConfig\<close> returns \<open>ErrDBRequired\<close>, the field error
  of \<open>db-url\<close> with the reason "is required", and touches nothing. \<open>RootCmd\<close> then
  fails, and unless reading the configuration file or the Prometheus server failed
  before, its error is \<open>ErrDBRequired\<close> itself, not wrapped. The app is neither
  created nor run.
\<close>

theorem C7_db_url_required:
  assumes "GetString (vp c) ''db-url'' = []"
  shows "snd (fst (getConfig c tr)) = Some ErrDBRequired \<and>
         snd (getConfig c tr) = tr \<and>
         ErrDBRequired = FieldError ''db-url'' ''is required'' \<and>
         fst (RootCmd_RunE c) \<noteq> None \<and>
         ((ReadInConfig_res c = None \<or> (\<exists>x. ReadInConfig_res c = Some x \<and> isCfgNotFound x)) \<and>
          initPromServer_res c = None \<longrightarrow> fst (RootCmd_RunE c) = Some ErrDBRequired) \<and>
         (\<forall>cfg sdb. CmdNewApp cfg sdb \<notin> set (snd (RootCmd_RunE c))) \<and>
         CmdAppRun \<notin> set (snd (RootCmd_RunE c))"
proof -
  obtain cfg where g: "getConfig c (logger_setup c) = ((cfg, Some ErrDBRequired), logger_setup c)"
    using getConfig_empty_db_url[OF assms, of "logger_setup c"] by (metis prod.collapse)
  have e: "fst (RootCmd_RunE c) \<noteq> None"
    unfolding RootCmd_RunE_def Let_def by (simp add: g split: option.splits)
  have v: "(ReadInConfig_res c = None \<or> (\<exists>x. ReadInConfig_res c = Some x \<and> isCfgNotFound x)) \<and>
          initPromServer_res c = None \<longrightarrow> fst (RootCmd_RunE c) = Some ErrDBRequired"
    unfolding RootCmd_RunE_def Let_def by (auto simp: g)
  have t: "snd (RootCmd_RunE c) = logger_setup c"
    unfolding RootCmd_RunE_def Let_def by (simp add: g split: option.splits)
  have n: "(\<forall>cfg sdb. CmdNewApp cfg sdb \<notin> set (snd (RootCmd_RunE c))) \<and>
         CmdAppRun \<notin> set (snd (RootCmd_RunE c))"
    unfolding t using logger_setup_events[of c] by auto
  from getConfig_empty_db_url[OF assms, of tr] e v n show ?thesis
    by (simp add: ErrDBRequired_def)
qed

theorem C7_db_url_required_witness:
  "GetString (vp (cmd_env0 [] chicago)) ''db-url'' = [] \<and>
   ReadInConfig_res (cmd_env0 [] chicago) = Some ConfigFileNotFoundError \<and>
   isCfgNotFound ConfigFileNotFoundError \<and>
   initPromServer_res (cmd_env0 [] chicago) = None \<and>
   RootCmd_RunE (cmd_env0 [] chicago) = (Some (FieldError ''db-url'' ''is required''), [])"
proof -
  have a: "GetString (vp (cmd_env0 [] chicago)) ''db-url'' = []"
    by (simp add: cmd_env0_def viper0_def)
  have b: "ReadInConfig_res (cmd_env0 [] chicago) = Some ConfigFileNotFoundError"
          "initPromServer_res (cmd_env0 [] chicago) = None"
    by (simp_all add: cmd_env0_def)
  have n: "isCfgNotFound ConfigFileNotFoundError" by simp
  have tr: "snd (RootCmd_RunE (cmd_env0 [] chicago)) = []"
    by (simp add: RootCmd_RunE_def logger_setup_def getConfig_def Let_def cmd_env0_def viper0_def)
  from C7_db_url_required[OF a, of "[]"] b n
  have "fst (RootCmd_RunE (cmd_env0 [] chicago)) = Some (FieldError ''db-url'' ''is required'')"
    by simp
  with tr have "RootCmd_RunE (cmd_env0 [] chicago) = (Some (FieldError ''db-url'' ''is required''), [])"
    by (metis prod.collapse)
  with a b n show ?thesis by simp
qed

lemma getConfig_err_no_tls:
  assumes "snd (getTLSConfig_res c) = None"
  shows "snd (fst (getConfig c tr)) = None \<or> snd (fst (getConfig c tr)) = Some ErrDBRequired"
  using assms by (simp add: getConfig_def Let_def)

lemma testCmd_dst_fails:
  assumes "dstCheck (LoadLocation c) = Some e"
  shows "fst (testCmd_RunE c) \<noteq> None \<and>
         (snd (getTLSConfig_res c) = None \<longrightarrow>
            fst (testCmd_RunE c) = Some (ErrorsNew ''one or more checks failed.'') \<and>
            last (snd (testCmd_RunE c)) = CmdPrintFAIL ''DST Rules'' e)"
proof -
  obtain cf err tr where g: "getConfig c (snd (versionCheck c (False, []))) = ((cf, err), tr)"
    by (metis prod.collapse)
  have t: "snd (getTLSConfig_res c) = None \<longrightarrow> err = None \<or> err = Some ErrDBRequired"
    using getConfig_err_no_tls[of c "snd (versionCheck c (False, []))"] g by simp
  have i: "errors_Is ErrDBRequired ErrDBRequired" by (simp add: ErrDBRequired_def)
  show ?thesis
    using assms t i
    by (auto simp add: testCmd_RunE_def g Let_def result_def split: prod.splits option.splits)
qed

lemma dstCheck_None_iff:
  "dstCheck load = None \<longleftrightarrow>
     (\<exists>loc. load ''America/Chicago'' = Inr loc \<and>
        Zone (Date 2020 3 8 0 0 0 0 loc) = - 21600 \<and>
        Zone (Add (Date 2020 3 8 0 0 0 0 loc) (3 * Hour)) = - 18000 \<and>
        Zone (Date 2020 11 1 0 0 0 0 loc) = - 18000 \<and>
        Zone (Add (Date 2020 11 1 0 0 0 0 loc) (3 * Hour)) = - 21600)"
  by (auto simp: dstCheck_def Let_def split: sum.splits)

text \<open>
  C8. \<open>dstCheck\<close> passes exactly when America/Chicago loads and its offset is -21600
  at 2020-03-08 00:00, -18000 three hours later, -18000 at 2020-11-01 00:00 and
  -21600 three hours later. When it fails, the self-test returns an error: the error
  "one or more checks failed." after printing the failure of "DST Rules", unless
  the configuration could not be loaded before.
\<close>

theorem C8_dst_check:
  "(dstCheck load = None \<longleftrightarrow>
     (\<exists>loc. load ''America/Chicago'' = Inr loc \<and>
        Zone (Date 2020 3 8 0 0 0 0 loc) = - 21600 \<and>
        Zone (Add (Date 2020 3 8 0 0 0 0 loc) (3 * Hour)) = - 18000 \<and>
        Zone (Date 2020 11 1 0 0 0 0 loc) = - 18000 \<and>
        Zone (Add (Date 2020 11 1 0 0 0 0 loc) (3 * Hour)) = - 21600)) \<and>
   (dstCheck (LoadLocation c) = Some e \<longrightarrow>
      fst (testCmd_RunE c) \<noteq> None \<and>
      (snd (getTLSConfig_res c) = None \<longrightarrow>
         fst (testCmd_RunE c) = Some (ErrorsNew ''one or more checks failed.'') \<and>
         last (snd (testCmd_RunE c)) = CmdPrintFAIL ''DST Rules'' e))"
  using dstCheck_None_iff[of load] testCmd_dst_fails[of c e] by blast

lemma chicago_dates:
  "Zone (Date 2020 3 8 0 0 0 0 chicago) = - 21600"
  "Zone (Add (Date 2020 3 8 0 0 0 0 chicago) (3 * Hour)) = - 18000"
  "Zone (Date 2020 11 1 0 0 0 0 chicago) = - 18000"
  "Zone (Add (Date 2020 11 1 0 0 0 0 chicago) (3 * Hour)) = - 21600"
  by (simp_all add: Zone_def Date_def Add_def Hour_def days_from_civil_def chicago_def Let_def)

theorem C8_dst_check_witness:
  "dstCheck (\<lambda>name. Inr chicago) = None \<and>
   unix_ns (Date 2020 3 8 0 0 0 0 chicago) = 1583647200 * 1000000000 \<and>
   Zone (Date 2020 3 8 0 0 0 0 chicago) = - 21600 \<and>
   Zone (Add (Date 2020 3 8 0 0 0 0 chicago) (3 * Hour)) = - 18000 \<and>
   Zone (Date 2020 11 1 0 0 0 0 chicago) = - 18000 \<and>
   Zone (Add (Date 2020 11 1 0 0 0 0 chicago) (3 * Hour)) = - 21600 \<and>
   dstCheck (LoadLocation (cmd_env0 [] utc)) = Some (ErrInvalidOffset 0 (- 21600)) \<and>
   snd (getTLSConfig_res (cmd_env0 [] utc)) = None \<and>
   fst (testCmd_RunE (cmd_env0 [] utc)) = Some (ErrorsNew ''one or more checks failed.'') \<and>
   last (snd (testCmd_RunE (cmd_env0 [] utc))) = CmdPrintFAIL ''DST Rules'' (ErrInvalidOffset 0 (- 21600))"
proof -
  have u: "unix_ns (Date 2020 3 8 0 0 0 0 chicago) = 1583647200 * 1000000000"
    by (simp add: Date_def days_from_civil_def chicago_def Let_def)
  have f: "dstCheck (LoadLocation (cmd_env0 [] utc)) = Some (ErrInvalidOffset 0 (- 21600))"
    by (simp add: dstCheck_def cmd_env0_def Zone_def Date_def days_from_civil_def utc_def Let_def)
  have t: "snd (getTLSConfig_res (cmd_env0 [] utc)) = None"
    by (simp add: cmd_env0_def)
  note th = C8_dst_check[of "\<lambda>name. Inr chicago" "cmd_env0 [] utc" "ErrInvalidOffset 0 (- 21600)"]
  from th chicago_dates have p: "dstCheck (\<lambda>name. Inr chicago) = None" by blast
  from th f t have q: "fst (testCmd_RunE (cmd_env0 [] utc)) = Some (ErrorsNew ''one or more checks failed.'')"
      "last (snd (testCmd_RunE (cmd_env0 [] utc))) = CmdPrintFAIL ''DST Rules'' (ErrInvalidOffset 0 (- 21600))"
    by blast+
  show ?thesis
    by (intro conjI) (rule p u chicago_dates f t q)+
qed

end
